theory Spec2Isabelle
  imports Main "HOL-Library.Char_ord" "HOL-Library.List_Lexorder"
begin

section \<open>The transactional quota prototype (src/unnamed/part\_000)\<close>

text \<open>
  The prototype keeps one status document per user in the document store and a copy
  of it in the component's local state (\<open>userStatus\<close>), refreshed by a snapshot
  listener. Times are milliseconds since the epoch, as \<open>Date.getTime()\<close> gives them.
  The source's constant \<open>DAILY_LIMIT\<close> is 50; the operations below take the limit as
  a parameter \<open>L\<close>, and the source's own operations are their instances at
  \<open>DAILY_LIMIT\<close>.
\<close>

definition DAILY_LIMIT :: nat where
  "DAILY_LIMIT = 50"

definition MILLISECONDS_IN_DAY :: int where
  "MILLISECONDS_IN_DAY = 24 * 60 * 60 * 1000"

record user_status =
  swipeCount :: nat
  lastSwipeDate :: int
  isPremium :: bool

definition INITIAL_USER_STATUS :: user_status where
  "INITIAL_USER_STATUS = \<lparr>swipeCount = 0, lastSwipeDate = 0, isPremium = False\<rparr>"

text \<open>The texts the component shows through \<open>setMessage\<close>.\<close>

datatype ui_message =
    NoMessage
  | SwipeUnlimited
  | SwipeLimitReached
  | SwipesRemaining nat
  | SwipeError
  | CountReset
  | ResetError
  | PremiumActivated
  | PremiumFailed

text \<open>
  \<open>hasDbUser\<close> stands for \<open>db && userId\<close> (so that \<open>getStatusDocRef\<close> gives a
  reference); \<open>statusDoc\<close> is the stored document (\<open>None\<close> when it does not exist),
  \<open>userStatus\<close> the local copy.
\<close>

record app_state =
  hasDbUser :: bool
  isAuthReady :: bool
  isLoading :: bool
  userStatus :: user_status
  statusDoc :: "user_status option"
  showLimitModal :: bool
  message :: ui_message

text \<open>The first guard of \<open>handleSwipe\<close>, without the loading flag.\<close>

definition ready :: "app_state \<Rightarrow> bool" where
  "ready s = (hasDbUser s \<and> isAuthReady s)"

text \<open>The path \<open>handleSwipe\<close> took, which the source shows only through its effects.\<close>

datatype outcome =
    NotReady
  | PremiumSwipe
  | LimitModal
  | TxLimitHit
  | Consumed nat
  | WriteFailed

text \<open>
  The body of \<open>runTransaction\<close> in \<open>handleSwipe\<close>: it reads the stored document
  again, returns the limit itself when the stored count has reached it (writing nothing),
  and otherwise writes the incremented count together with the current time and returns
  the new count. \<open>DocumentNotFound\<close> is the error it throws on a missing document.
\<close>

datatype tx_result =
    DocumentNotFound
  | LimitWasHit
  | Incremented nat user_status

definition swipeTransaction :: "nat \<Rightarrow> int \<Rightarrow> user_status option \<Rightarrow> tx_result" where
  "swipeTransaction L now d =
     (case d of
        None \<Rightarrow> DocumentNotFound
      | Some data \<Rightarrow>
          (let currentCount = swipeCount data in
           if currentCount \<ge> L then LimitWasHit
           else
             (let newCount = currentCount + 1 in
              Incremented newCount (data\<lparr>swipeCount := newCount, lastSwipeDate := now\<rparr>))))"

text \<open>What \<open>handleSwipe\<close> shows for the number \<open>newCount\<close> that the transaction returned.\<close>

definition showNewCount :: "nat \<Rightarrow> nat \<Rightarrow> app_state \<Rightarrow> app_state" where
  "showNewCount L newCount s =
     (if newCount = L then s\<lparr>showLimitModal := True, message := SwipeLimitReached\<rparr>
      else if newCount > L then s\<lparr>showLimitModal := True\<rparr>
      else s\<lparr>message := SwipesRemaining (L - newCount)\<rparr>)"

definition handleSwipe :: "nat \<Rightarrow> int \<Rightarrow> app_state \<Rightarrow> outcome \<times> app_state" where
  "handleSwipe L now s =
     (if \<not> ready s \<or> isLoading s then (NotReady, s)
      else if isPremium (userStatus s) then (PremiumSwipe, s\<lparr>message := SwipeUnlimited\<rparr>)
      else if swipeCount (userStatus s) \<ge> L then (LimitModal, s\<lparr>showLimitModal := True\<rparr>)
      else
        (case swipeTransaction L now (statusDoc s) of
           DocumentNotFound \<Rightarrow> (WriteFailed, s\<lparr>message := SwipeError\<rparr>)
         | LimitWasHit \<Rightarrow> (TxLimitHit, showNewCount L L s)
         | Incremented newCount d' \<Rightarrow>
             (Consumed newCount, showNewCount L newCount (s\<lparr>statusDoc := Some d'\<rparr>))))"

text \<open>
  \<open>resetSwipeCount\<close>, called by the snapshot listener with the status it has just
  received: nothing for a premium user; otherwise, when a day or more has passed since
  \<open>lastSwipeDate\<close> and the count is positive, the count is set to 0 and the date to now.
\<close>

definition resetSwipeCount :: "int \<Rightarrow> user_status \<Rightarrow> app_state \<Rightarrow> app_state" where
  "resetSwipeCount now currentStatus s =
     (if isPremium currentStatus then s
      else
        (let timeElapsed = now - lastSwipeDate currentStatus in
         if timeElapsed \<ge> MILLISECONDS_IN_DAY \<and> swipeCount currentStatus > 0 then
           (case statusDoc s of
              None \<Rightarrow> s\<lparr>message := ResetError\<rparr>
            | Some d \<Rightarrow> s\<lparr>statusDoc := Some (d\<lparr>swipeCount := 0, lastSwipeDate := now\<rparr>),
                           message := CountReset\<rparr>)
         else s))"

text \<open>
  The \<open>onSnapshot\<close> callback: an existing document replaces the local status and is
  handed to \<open>resetSwipeCount\<close>; a missing one is created from \<open>INITIAL_USER_STATUS\<close>.
\<close>

definition onStatusSnapshot :: "int \<Rightarrow> app_state \<Rightarrow> app_state" where
  "onStatusSnapshot now s =
     (case statusDoc s of
        Some data \<Rightarrow> resetSwipeCount now data (s\<lparr>userStatus := data, isLoading := False\<rparr>)
      | None \<Rightarrow> s\<lparr>statusDoc := Some INITIAL_USER_STATUS, isLoading := False\<rparr>)"

text \<open>
  \<open>handleGoPremium\<close>: \<open>updateDoc\<close> with \<open>isPremium: true, swipeCount: 0\<close>; it fails on
  a missing document. The clock is not read.
\<close>

definition handleGoPremium :: "app_state \<Rightarrow> app_state" where
  "handleGoPremium s =
     (if \<not> hasDbUser s then s
      else
        (case statusDoc s of
           None \<Rightarrow> s\<lparr>message := PremiumFailed\<rparr>
         | Some d \<Rightarrow> s\<lparr>statusDoc := Some (d\<lparr>isPremium := True, swipeCount := 0\<rparr>),
                        message := PremiumActivated\<rparr>))"

text \<open>
  What a call reports in the specification's terms: the swipe went through on the
  premium path and when the transaction wrote an increment; the remaining budget is the
  number the component displays (the limit minus the new count, 0 at the limit).
\<close>

fun allowed :: "outcome \<Rightarrow> bool" where
  "allowed PremiumSwipe = True"
| "allowed (Consumed n) = True"
| "allowed other = False"

fun remaining :: "nat \<Rightarrow> outcome \<Rightarrow> nat option" where
  "remaining L (Consumed n) = Some (L - n)"
| "remaining L LimitModal = Some 0"
| "remaining L TxLimitHit = Some 0"
| "remaining L other = None"

text \<open>The component's own \<open>swipesRemaining\<close>; \<open>None\<close> is the text "Unlimited".\<close>

definition swipesRemaining :: "nat \<Rightarrow> app_state \<Rightarrow> nat option" where
  "swipesRemaining L s =
     (if isPremium (userStatus s) then None
      else Some (max 0 (L - swipeCount (userStatus s))))"

text \<open>
  One call as a user of the component sees it: \<open>handleSwipe\<close>, and then the snapshot
  listener, which the store runs when (and only when) the call has changed the document.
  The listener runs at once: its clock still reads the time of the call.
\<close>

definition swipeAndSync :: "nat \<Rightarrow> int \<Rightarrow> app_state \<Rightarrow> outcome \<times> app_state" where
  "swipeAndSync L now s =
     (let (out, s1) = handleSwipe L now s
      in (out, if statusDoc s1 = statusDoc s then s1 else onStatusSnapshot now s1))"

fun swipeTimes :: "nat \<Rightarrow> int list \<Rightarrow> app_state \<Rightarrow> outcome list \<times> app_state" where
  "swipeTimes L [] s = ([], s)"
| "swipeTimes L (now # ts) s =
     (let (out, s1) = swipeAndSync L now s;
          (outs, s2) = swipeTimes L ts s1
      in (out # outs, s2))"

text \<open>
  Calls whose local status may be stale or belong to another tab of the same user: each
  call comes with the local status its component holds, and all share the stored
  document, which only the transaction touches.
\<close>

fun swipeViews :: "nat \<Rightarrow> (user_status \<times> int) list \<Rightarrow> app_state \<Rightarrow> outcome list \<times> app_state" where
  "swipeViews L [] s = ([], s)"
| "swipeViews L ((view, now) # cs) s =
     (let (out, s1) = handleSwipe L now (s\<lparr>userStatus := view\<rparr>);
          (outs, s2) = swipeViews L cs s1
      in (out # outs, s2))"

text \<open>A history of the component: swipes and snapshot deliveries, each at its time.\<close>

datatype event = Swipe int | Snapshot int

fun step :: "nat \<Rightarrow> event \<Rightarrow> app_state \<Rightarrow> app_state" where
  "step L (Swipe now) s = snd (handleSwipe L now s)"
| "step L (Snapshot now) s = onStatusSnapshot now s"

fun run :: "nat \<Rightarrow> event list \<Rightarrow> app_state \<Rightarrow> app_state" where
  "run L [] s = s"
| "run L (e # es) s = run L es (step L e s)"

text \<open>
  Every event of the history comes less than a day after the latest swipe before it
  (or after \<open>t0\<close>, the stored date at the start).
\<close>

fun withinDay :: "int \<Rightarrow> event list \<Rightarrow> bool" where
  "withinDay t0 [] = True"
| "withinDay t0 (Swipe now # es) = (now - t0 < MILLISECONDS_IN_DAY \<and> withinDay now es)"
| "withinDay t0 (Snapshot now # es) = (now - t0 < MILLISECONDS_IN_DAY \<and> withinDay t0 es)"

fun swipesIn :: "event list \<Rightarrow> nat" where
  "swipesIn [] = 0"
| "swipesIn (Swipe now # es) = Suc (swipesIn es)"
| "swipesIn (Snapshot now # es) = swipesIn es"

text \<open>
  The component is ready and its local status is the stored one, of a user who is not
  premium and has used \<open>c\<close> swipes.
\<close>

definition synced :: "app_state \<Rightarrow> nat \<Rightarrow> bool" where
  "synced s c =
     (ready s \<and> \<not> isLoading s \<and> statusDoc s = Some (userStatus s)
      \<and> swipeCount (userStatus s) = c \<and> \<not> isPremium (userStatus s))"

text \<open>
  The weaker state between snapshots: the local status may lag behind the stored
  document \<open>d\<close>.
\<close>

definition lagging :: "app_state \<Rightarrow> user_status \<Rightarrow> bool" where
  "lagging s d =
     (ready s \<and> \<not> isLoading s \<and> statusDoc s = Some d \<and> \<not> isPremium d
      \<and> \<not> isPremium (userStatus s) \<and> swipeCount (userStatus s) \<le> swipeCount d)"

section \<open>The untransacted prototype (src/src/Basematch-new.jsx)\<close>

text \<open>
  The status map of the user document. \<open>lastResetDate\<close> is the ISO date string of the
  last reset; it is absent (\<open>None\<close>) after \<open>handleMintNFT\<close> has replaced the map. An
  absent \<open>matches\<close> reads as the empty list and an absent flag as false.
\<close>

record status_n =
  swipesToday :: nat
  isPremium_n :: bool
  lastResetDate :: "string option"
  matches_n :: "string list"
  walletAddress :: "string option"
  farcasterConnected :: bool

definition DAILY_SWIPE_LIMIT :: nat where
  "DAILY_SWIPE_LIMIT = 50"

definition UNLIMITED_SWIPE_SIMULATION :: nat where
  "UNLIMITED_SWIPE_SIMULATION = 9999"

definition MOCK_PROFILES_n :: "string list" where
  "MOCK_PROFILES_n = [''p1'', ''p2'', ''p3'', ''p4'']"

definition initialStatus :: "string \<Rightarrow> status_n" where
  "initialStatus today =
     \<lparr>swipesToday = 49, isPremium_n = False, lastResetDate = Some today, matches_n = [],
      walletAddress = None, farcasterConnected = False\<rparr>"

text \<open>
  \<open>hasDb\<close>: the store was initialised, so \<open>getUserDocRef\<close> gives a reference.
  \<open>listenerDay\<close>: the date on which the status listener was set up, which is the date
  in its \<open>initialStatus\<close>.
\<close>

record app_n =
  hasDb :: bool
  listenerDay :: string
  userId_n :: string
  userStatus_n :: status_n
  statusDoc_n :: "status_n option"
  currentIndex :: nat
  isModalOpen :: bool
  modalStep :: string

definition currentProfile_n :: "app_n \<Rightarrow> string" where
  "currentProfile_n s = MOCK_PROFILES_n ! (currentIndex s mod length MOCK_PROFILES_n)"

definition swipeLimit :: "nat \<Rightarrow> app_n \<Rightarrow> nat" where
  "swipeLimit L s = (if isPremium_n (userStatus_n s) then UNLIMITED_SWIPE_SIMULATION else L)"

definition swipesRemaining_n :: "nat \<Rightarrow> app_n \<Rightarrow> int" where
  "swipesRemaining_n L s = int (swipeLimit L s) - int (swipesToday (userStatus_n s))"

definition handleUpgrade :: "string \<Rightarrow> app_n \<Rightarrow> app_n" where
  "handleUpgrade stp s =
     (if \<not> isPremium_n (userStatus_n s) then s\<lparr>isModalOpen := True, modalStep := stp\<rparr> else s)"

text \<open>\<open>arrayUnion\<close> adds an element that the stored array does not hold yet.\<close>

definition arrayUnion :: "string \<Rightarrow> string list \<Rightarrow> string list" where
  "arrayUnion x xs = (if x \<in> set xs then xs else xs @ [x])"

text \<open>
  \<open>handleSwipe\<close>: the limit check reads the local status; the write stores the local count plus
  one (the unchanged count for a premium user) without reading the document. With no
  store the local status is updated instead.
\<close>

definition handleSwipe_n :: "nat \<Rightarrow> string \<Rightarrow> app_n \<Rightarrow> outcome \<times> app_n" where
  "handleSwipe_n L direction s =
     (if \<not> isPremium_n (userStatus_n s) \<and> swipesRemaining_n L s \<le> 0
      then (LimitModal, handleUpgrade ''limit_reached'' s)
      else if userId_n s = [] then (NotReady, s)
      else
        (let premium = isPremium_n (userStatus_n s);
             newSwipes = (if \<not> premium then swipesToday (userStatus_n s) + 1
                          else swipesToday (userStatus_n s));
             out = (if premium then PremiumSwipe else Consumed newSwipes)
         in if hasDb s then
              (case statusDoc_n s of
                 None \<Rightarrow> (WriteFailed, s)
               | Some d \<Rightarrow>
                   (out, s\<lparr>statusDoc_n :=
                              Some (d\<lparr>swipesToday := newSwipes,
                                      matches_n := (if direction = ''LIKE''
                                                    then arrayUnion (currentProfile_n s) (matches_n d)
                                                    else matches_n d)\<rparr>),
                            currentIndex := currentIndex s + 1\<rparr>))
            else
              (out, s\<lparr>userStatus_n :=
                         (userStatus_n s)\<lparr>swipesToday := newSwipes,
                            matches_n := (if direction = ''LIKE''
                                          then matches_n (userStatus_n s) @ [currentProfile_n s]
                                          else matches_n (userStatus_n s))\<rparr>,
                       currentIndex := currentIndex s + 1\<rparr>)))"

text \<open>
  The status listener; \<open>today\<close> is what \<open>getTodayDateString()\<close> returns. A status of another
  day is reset and written back (the write fails on a missing document); a missing
  document is created from the initial status.
\<close>

definition onStatusSnapshot_n :: "string \<Rightarrow> app_n \<Rightarrow> app_n" where
  "onStatusSnapshot_n today s =
     (case statusDoc_n s of
        Some d \<Rightarrow>
          (if lastResetDate d \<noteq> Some today
           then (let data = d\<lparr>swipesToday := 0, lastResetDate := Some today\<rparr>
                 in s\<lparr>statusDoc_n := Some data, userStatus_n := data\<rparr>)
           else s\<lparr>userStatus_n := d\<rparr>)
      | None \<Rightarrow>
          (let d = initialStatus (listenerDay s);
               data = (if lastResetDate d \<noteq> Some today
                       then d\<lparr>swipesToday := 0, lastResetDate := Some today\<rparr> else d)
           in s\<lparr>userStatus_n := data, statusDoc_n := Some d\<rparr>))"

text \<open>
  \<open>handleMintNFT\<close>: the stored status map is replaced by the three premium fields, the
  local status is overwritten field by field. The clock is not read.
\<close>

definition handleMintNFT :: "string \<Rightarrow> app_n \<Rightarrow> app_n" where
  "handleMintNFT wallet s =
     (let s1 = (if hasDb s \<and> userId_n s \<noteq> [] then
                  (case statusDoc_n s of
                     None \<Rightarrow> s
                   | Some d \<Rightarrow>
                       s\<lparr>statusDoc_n :=
                           Some \<lparr>swipesToday = 0, isPremium_n = True, lastResetDate = None,
                                 matches_n = [], walletAddress = Some wallet,
                                 farcasterConnected = False\<rparr>\<rparr>)
                else s)
      in s1\<lparr>userStatus_n :=
               (userStatus_n s1)\<lparr>isPremium_n := True, swipesToday := 0,
                                  walletAddress := Some wallet\<rparr>,
             isModalOpen := False, modalStep := ''mint_processing''\<rparr>)"

text \<open>One call followed by the listener, within the day \<open>today\<close>.\<close>

definition swipeAndSync_n :: "nat \<Rightarrow> string \<Rightarrow> string \<Rightarrow> app_n \<Rightarrow> outcome \<times> app_n" where
  "swipeAndSync_n L today direction s =
     (let (out, s1) = handleSwipe_n L direction s
      in (out, if statusDoc_n s1 = statusDoc_n s then s1 else onStatusSnapshot_n today s1))"

fun swipeTimes_n :: "nat \<Rightarrow> string \<Rightarrow> string list \<Rightarrow> app_n \<Rightarrow> outcome list \<times> app_n" where
  "swipeTimes_n L today [] s = ([], s)"
| "swipeTimes_n L today (direction # ds) s =
     (let (out, s1) = swipeAndSync_n L today direction s;
          (outs, s2) = swipeTimes_n L today ds s1
      in (out # outs, s2))"

text \<open>
  Calls by components whose local status may be stale: each call comes with the local
  status its component holds; the stored document is shared.
\<close>

fun swipeViews_n :: "nat \<Rightarrow> (status_n \<times> string) list \<Rightarrow> app_n \<Rightarrow> outcome list \<times> app_n" where
  "swipeViews_n L [] s = ([], s)"
| "swipeViews_n L ((view, direction) # cs) s =
     (let (out, s1) = handleSwipe_n L direction (s\<lparr>userStatus_n := view\<rparr>);
          (outs, s2) = swipeViews_n L cs s1
      in (out # outs, s2))"

text \<open>
  The local status of a user who is not premium is the stored one (when there is a
  store) and was last reset on the day \<open>today\<close>.
\<close>

definition synced_n :: "string \<Rightarrow> app_n \<Rightarrow> bool" where
  "synced_n today s =
     (\<not> isPremium_n (userStatus_n s)
      \<and> (hasDb s \<longrightarrow> statusDoc_n s = Some (userStatus_n s)
                      \<and> lastResetDate (userStatus_n s) = Some today))"

text \<open>
  A premium user whose component can write: the local status and the stored one (when
  there is a store) both say premium.
\<close>

definition premium_n :: "app_n \<Rightarrow> bool" where
  "premium_n s =
     (isPremium_n (userStatus_n s) \<and> userId_n s \<noteq> []
      \<and> (if hasDb s then (case statusDoc_n s of None \<Rightarrow> False | Some d \<Rightarrow> isPremium_n d)
          else True))"

section \<open>The calendar-day prototype (src/unnamed/part\_002)\<close>

text \<open>
  The status map of the user document and the component's copy \<open>swipeData\<close>. The reset
  date is a timestamp; it can be absent.
\<close>

record status_d =
  swipesToday_d :: nat
  isPremium_d :: bool
  lastResetDate_d :: "int option"

record swipe_data =
  count :: nat
  isPremium_s :: bool
  lastReset :: "int option"

datatype message_d =
    NoMessage_d
  | AuthNotReady
  | Swiped string
  | CountSaveError
  | Minting
  | MintDone
  | PremiumOn
  | PremiumError

record app_d =
  ready_d :: bool
  isAuthReady_d :: bool
  swipeData :: swipe_data
  statusDoc_d :: "status_d option"
  currentProfile_d :: nat
  message_dd :: message_d
  showModal :: bool
  modalStep_d :: string

text \<open>
  \<open>Date.toDateString\<close> gives the calendar date of a time in the zone of the browser,
  daylight saving included. It is a parameter of everything that uses it: a function
  from times to date strings, about which nothing is assumed.
\<close>

definition isNewDay :: "(int \<Rightarrow> string) \<Rightarrow> int \<Rightarrow> int option \<Rightarrow> bool" where
  "isNewDay toDateString today lastResetDate' =
     (case lastResetDate' of
        None \<Rightarrow> True
      | Some lastReset' \<Rightarrow> toDateString today \<noteq> toDateString lastReset')"

text \<open>
  \<open>handleSwipe\<close>: the limit check reads the local copy; a non-premium swipe stores the local
  count plus one with \<open>updateDoc\<close>, which fails on a missing document.
\<close>

definition handleSwipe_d :: "nat \<Rightarrow> string \<Rightarrow> app_d \<Rightarrow> outcome \<times> app_d" where
  "handleSwipe_d L direction s =
     (if \<not> ready_d s then (NotReady, s\<lparr>message_dd := AuthNotReady\<rparr>)
      else
        (let canSwipe = (isPremium_s (swipeData s) \<or> count (swipeData s) < L) in
         if \<not> canSwipe then (LimitModal, s\<lparr>showModal := True, modalStep_d := ''limit''\<rparr>)
         else
           (let s1 = s\<lparr>message_dd := Swiped direction,
                       currentProfile_d := currentProfile_d s + 1\<rparr>
            in if \<not> isPremium_s (swipeData s) then
                 (case statusDoc_d s1 of
                    None \<Rightarrow> (WriteFailed, s1\<lparr>message_dd := CountSaveError\<rparr>)
                  | Some d \<Rightarrow>
                      (Consumed (count (swipeData s) + 1),
                       s1\<lparr>statusDoc_d := Some (d\<lparr>swipesToday_d := count (swipeData s) + 1\<rparr>)\<rparr>))
               else (PremiumSwipe, s1))))"

text \<open>The snapshot listener: copy the stored status, or create the document.\<close>

definition onStatusSnapshot_d :: "int \<Rightarrow> app_d \<Rightarrow> app_d" where
  "onStatusSnapshot_d now s =
     (case statusDoc_d s of
        Some d \<Rightarrow> s\<lparr>swipeData := \<lparr>count = swipesToday_d d, isPremium_s = isPremium_d d,
                                    lastReset = lastResetDate_d d\<rparr>\<rparr>
      | None \<Rightarrow> s\<lparr>statusDoc_d := Some \<lparr>swipesToday_d = 0, isPremium_d = False,
                                       lastResetDate_d = Some now\<rparr>\<rparr>)"

text \<open>
  The reset effect, run when the local \<open>lastReset\<close> has changed: on a new calendar day
  the stored count is set to 0 and the stored reset date to now.
\<close>

definition resetEffect_d :: "(int \<Rightarrow> string) \<Rightarrow> int \<Rightarrow> app_d \<Rightarrow> app_d" where
  "resetEffect_d toDateString now s =
     (if isAuthReady_d s \<and> ready_d s \<and> lastReset (swipeData s) \<noteq> None
         \<and> isNewDay toDateString now (lastReset (swipeData s))
      then (case statusDoc_d s of
              None \<Rightarrow> s
            | Some d \<Rightarrow> s\<lparr>statusDoc_d := Some (d\<lparr>swipesToday_d := 0, lastResetDate_d := Some now\<rparr>)\<rparr>)
      else s)"

text \<open>\<open>handleMintOnBase\<close>: \<open>setDoc\<close> with merge, which creates a missing document.\<close>

definition handleMintOnBase :: "int \<Rightarrow> app_d \<Rightarrow> app_d" where
  "handleMintOnBase now s =
     (if \<not> ready_d s then s
      else s\<lparr>statusDoc_d := Some \<lparr>swipesToday_d = 0, isPremium_d = True,
                                   lastResetDate_d = Some now\<rparr>,
             modalStep_d := ''minting'', showModal := False, message_dd := PremiumOn\<rparr>)"

definition swipesRemaining_d :: "nat \<Rightarrow> app_d \<Rightarrow> int" where
  "swipesRemaining_d L s = int L - int (count (swipeData s))"

text \<open>
  What follows a write: the listener copies the document; the reset effect runs, since
  the copied reset date is a new object at every snapshot; and a reset, being a write
  itself, is copied by the listener in turn.
\<close>

definition settle_d :: "(int \<Rightarrow> string) \<Rightarrow> int \<Rightarrow> app_d \<Rightarrow> app_d" where
  "settle_d toDateString now s =
     (let s1 = onStatusSnapshot_d now s;
          s2 = resetEffect_d toDateString now s1
      in if statusDoc_d s2 = statusDoc_d s1 then s2 else onStatusSnapshot_d now s2)"

text \<open>One call at the time \<open>now\<close>, followed by what its write sets off.\<close>

definition swipeAndSync_d ::
  "nat \<Rightarrow> (int \<Rightarrow> string) \<Rightarrow> int \<Rightarrow> string \<Rightarrow> app_d \<Rightarrow> outcome \<times> app_d" where
  "swipeAndSync_d L toDateString now direction s =
     (let (out, s1) = handleSwipe_d L direction s
      in (out, if statusDoc_d s1 = statusDoc_d s then s1 else settle_d toDateString now s1))"

fun swipeTimes_d ::
  "nat \<Rightarrow> (int \<Rightarrow> string) \<Rightarrow> (int \<times> string) list \<Rightarrow> app_d \<Rightarrow> outcome list \<times> app_d" where
  "swipeTimes_d L toDateString [] s = ([], s)"
| "swipeTimes_d L toDateString ((now, direction) # cs) s =
     (let (out, s1) = swipeAndSync_d L toDateString now direction s;
          (outs, s2) = swipeTimes_d L toDateString cs s1
      in (out # outs, s2))"

text \<open>The time \<open>now\<close> has the calendar date of the component's reset date.\<close>

definition onDay :: "(int \<Rightarrow> string) \<Rightarrow> int \<Rightarrow> app_d \<Rightarrow> bool" where
  "onDay toDateString now s = (\<not> isNewDay toDateString now (lastReset (swipeData s)))"

text \<open>
  The component is ready and its copy is the stored status, of a user who is not premium
  and has used \<open>c\<close> swipes.
\<close>

definition synced_d :: "app_d \<Rightarrow> nat \<Rightarrow> bool" where
  "synced_d s c =
     (ready_d s \<and> count (swipeData s) = c \<and> \<not> isPremium_s (swipeData s)
      \<and> (case statusDoc_d s of
            None \<Rightarrow> False
          | Some d \<Rightarrow> swipesToday_d d = c \<and> \<not> isPremium_d d
                       \<and> lastReset (swipeData s) = lastResetDate_d d))"

section \<open>The matchmaking prototype (src/unnamed/part\_001)\<close>

text \<open>
  The store holds, per user, a metadata document, the private likes keyed by the profile
  swiped and the private matches keyed by the match id; and one public collection of
  likes, whose documents \<open>addDoc\<close> creates under fresh ids, so it is a list.
\<close>

record meta_doc =
  dailySwipeCount_doc :: nat
  lastSwipeReset :: "int option"
  hasSubscriptionNFT_doc :: bool

record private_like =
  likedProfileId :: string
  action_l :: string
  timestamp_l :: int

record public_like =
  likerId :: string
  likedId :: string
  timestamp_p :: int

record match_doc =
  partnerId :: string
  timestamp_m :: int

record store =
  metadata :: "string \<Rightarrow> meta_doc option"
  privateLikes :: "string \<Rightarrow> string \<Rightarrow> private_like option"
  publicLikes :: "public_like list"
  matches :: "string \<Rightarrow> string \<Rightarrow> match_doc option"

definition emptyStore :: store where
  "emptyStore = \<lparr>metadata = (\<lambda>u. None), privateLikes = (\<lambda>u k. None), publicLikes = [],
                  matches = (\<lambda>u k. None)\<rparr>"

record profile =
  profileId :: string
  profileName :: string

datatype message_m = NoMessage_m | SwipeLimitError | SwipeSaveError

text \<open>
  The component's state; \<open>userId\<close> is \<open>None\<close> before sign-in, \<open>hasDb_m\<close> says that the
  store was initialised.
\<close>

record client =
  hasDb_m :: bool
  userId :: "string option"
  isLoading_m :: bool
  profiles :: "profile list"
  currentProfileIndex :: nat
  dailySwipeCount :: nat
  hasSubscriptionNFT :: bool
  swipedProfileIds :: "string set"
  matchesList :: "(string \<times> string \<times> string) list"
  matchNotification :: "(string \<times> string) option"
  error_m :: message_m

text \<open>The ids of the profiles in \<open>MOCK_PROFILES\<close>.\<close>

definition MOCK_PROFILE_IDS :: "string list" where
  "MOCK_PROFILE_IDS =
     [''profile_1'', ''profile_2'', ''profile_3'', ''profile_4'', ''profile_5'',
      ''profile_6'', ''profile_7'', ''profile_8'', ''profile_9'', ''profile_10'']"

definition MAX_SWIPES_PER_DAY :: nat where
  "MAX_SWIPES_PER_DAY = 50"

text \<open>
  The match id: the two ids sorted (by the default comparison of strings) and joined
  with an underscore.
\<close>

definition matchIdOf :: "string \<Rightarrow> string \<Rightarrow> string" where
  "matchIdOf a b = (if b < a then b @ ''_'' @ a else a @ ''_'' @ b)"

text \<open>The query of \<open>checkForMatch\<close>: the public likes from \<open>liker\<close> to \<open>liked\<close>.\<close>

definition likesFromTo :: "store \<Rightarrow> string \<Rightarrow> string \<Rightarrow> public_like list" where
  "likesFromTo st liker liked =
     filter (\<lambda>l. likerId l = liker \<and> likedId l = liked) (publicLikes st)"

text \<open>
  \<open>checkForMatch\<close> for the user \<open>uid\<close>: when the profile just liked has a public like
  for this user, the match document is written (with merge) into this user's matches
  under the match id, and the match is announced. The first component of the result is
  the id of the match found, if any.
\<close>

definition checkForMatch ::
  "string \<Rightarrow> string \<Rightarrow> string \<Rightarrow> int \<Rightarrow> client \<times> store \<Rightarrow> string option \<times> client \<times> store" where
  "checkForMatch uid likedProfileId' likedProfileName now cs =
     (let (c, st) = cs in
      if likesFromTo st likedProfileId' uid \<noteq> [] then
        (let matchId = matchIdOf uid likedProfileId'
         in (Some matchId,
             c\<lparr>matchNotification := Some (likedProfileName, likedProfileId'),
               matchesList := matchesList c @ [(likedProfileId', likedProfileName, matchId)]\<rparr>,
             st\<lparr>matches := (matches st)
                   (uid := (matches st uid)
                      (matchId \<mapsto> \<lparr>partnerId = likedProfileId', timestamp_m = now\<rparr>))\<rparr>))
      else (None, c, st))"

text \<open>What a call of \<open>handleSwipe\<close> came to.\<close>

datatype swipe_result = Ignored | Limited | Recorded "string option"

text \<open>
  \<open>handleSwipe\<close>: after the guards and the limit check, the count is written to the
  metadata (with merge), the swipe to the private likes, and a like also to the public
  likes, followed by \<open>checkForMatch\<close>. \<open>now\<close> is the time of the call.
\<close>

definition handleSwipe_m ::
  "string \<Rightarrow> int \<Rightarrow> client \<times> store \<Rightarrow> swipe_result \<times> client \<times> store" where
  "handleSwipe_m action now cs =
     (let (c, st) = cs in
      case userId c of
        None \<Rightarrow> (Ignored, c, st)
      | Some uid \<Rightarrow>
          if \<not> hasDb_m c \<or> isLoading_m c then (Ignored, c, st)
          else if currentProfileIndex c \<ge> length (profiles c) then (Ignored, c, st)
          else
            (let currentProfile = profiles c ! currentProfileIndex c;
                 isSwipeLimited = (dailySwipeCount c \<ge> MAX_SWIPES_PER_DAY \<and> \<not> hasSubscriptionNFT c)
             in if isSwipeLimited then (Limited, c\<lparr>error_m := SwipeLimitError\<rparr>, st)
                else
                  (let newCount = dailySwipeCount c + 1;
                       c1 = c\<lparr>swipedProfileIds := insert (profileId currentProfile) (swipedProfileIds c),
                              dailySwipeCount := newCount\<rparr>;
                       meta = (case metadata st uid of
                                 None \<Rightarrow> \<lparr>dailySwipeCount_doc = newCount, lastSwipeReset = Some now,
                                           hasSubscriptionNFT_doc = False\<rparr>
                               | Some m \<Rightarrow> m\<lparr>dailySwipeCount_doc := newCount,
                                              lastSwipeReset := Some now\<rparr>);
                       st1 = st\<lparr>metadata := (metadata st)(uid \<mapsto> meta),
                                privateLikes := (privateLikes st)
                                  (uid := (privateLikes st uid)
                                     (profileId currentProfile \<mapsto>
                                        \<lparr>likedProfileId = profileId currentProfile,
                                         action_l = action, timestamp_l = now\<rparr>))\<rparr>
                   in if action = ''like'' then
                        (let st2 = st1\<lparr>publicLikes := publicLikes st1 @
                                         [\<lparr>likerId = uid, likedId = profileId currentProfile,
                                           timestamp_p = now\<rparr>]\<rparr>;
                             (m, c2, st3) = checkForMatch uid (profileId currentProfile)
                                              (profileName currentProfile) now (c1, st2)
                         in (Recorded m, c2\<lparr>currentProfileIndex := currentProfileIndex c + 1\<rparr>, st3))
                      else (Recorded None, c1\<lparr>currentProfileIndex := currentProfileIndex c + 1\<rparr>, st1))))"

text \<open>
  The records of the specification read off the store: a directed like is a public like
  document, a match of \<open>a\<close> with \<open>b\<close> is a match document of \<open>a\<close> under their match id
  that names \<open>b\<close> as the partner, and a match of the pair is such a document on either
  side.
\<close>

definition likeRecord :: "store \<Rightarrow> string \<Rightarrow> string \<Rightarrow> bool" where
  "likeRecord st a b = (likesFromTo st a b \<noteq> [])"



text \<open>
  The users of a history have distinguishable match ids: for none of them do two
  different partners give the same id.
\<close>

definition keysDistinct :: "string set \<Rightarrow> bool" where
  "keysDistinct U = (\<forall>u\<in>U. \<forall>p\<in>U. \<forall>q\<in>U. matchIdOf u p = matchIdOf u q \<longrightarrow> p = q)"


text \<open>
  A component of the user \<open>u\<close> that passes the guards and the limit check of
  \<open>handleSwipe\<close> and shows the profile \<open>p\<close>.
\<close>

definition showing :: "client \<Rightarrow> string \<Rightarrow> string \<Rightarrow> bool" where
  "showing c u p =
     (userId c = Some u \<and> hasDb_m c \<and> \<not> isLoading_m c
      \<and> currentProfileIndex c < length (profiles c)
      \<and> profileId (profiles c ! currentProfileIndex c) = p
      \<and> \<not> (dailySwipeCount c \<ge> MAX_SWIPES_PER_DAY \<and> \<not> hasSubscriptionNFT c))"

text \<open>The result of a call and the store it leaves.\<close>

definition resultOf :: "string \<Rightarrow> int \<Rightarrow> client \<Rightarrow> store \<Rightarrow> swipe_result" where
  "resultOf action now c st = fst (handleSwipe_m action now (c, st))"

definition storeAfter :: "string \<Rightarrow> int \<Rightarrow> client \<Rightarrow> store \<Rightarrow> store" where
  "storeAfter action now c st = snd (snd (handleSwipe_m action now (c, st)))"



section \<open>Example states\<close>

text \<open>Concrete states on which the theorems below are instantiated.\<close>

definition exampleStatus :: "nat \<Rightarrow> bool \<Rightarrow> user_status" where
  "exampleStatus c p = \<lparr>swipeCount = c, lastSwipeDate = 0, isPremium = p\<rparr>"

definition exampleState :: "nat \<Rightarrow> bool \<Rightarrow> app_state" where
  "exampleState c p =
     \<lparr>hasDbUser = True, isAuthReady = True, isLoading = False, userStatus = exampleStatus c p,
      statusDoc = Some (exampleStatus c p), showLimitModal = False, message = NoMessage\<rparr>"

definition exampleStatus_n :: "nat \<Rightarrow> status_n" where
  "exampleStatus_n c = (initialStatus ''2026-11-02'')\<lparr>swipesToday := c\<rparr>"

definition exampleState_n :: "nat \<Rightarrow> app_n" where
  "exampleState_n c =
     \<lparr>hasDb = True, listenerDay = ''2026-11-02'', userId_n = ''42069'', userStatus_n = exampleStatus_n c,
      statusDoc_n = Some (exampleStatus_n c), currentIndex = 0, isModalOpen = False,
      modalStep = ''limit_reached''\<rparr>"

definition exampleState_d :: "nat \<Rightarrow> bool \<Rightarrow> app_d" where
  "exampleState_d c p =
     \<lparr>ready_d = True, isAuthReady_d = True,
      swipeData = \<lparr>count = c, isPremium_s = p, lastReset = Some 0\<rparr>,
      statusDoc_d = Some \<lparr>swipesToday_d = c, isPremium_d = p, lastResetDate_d = Some 0\<rparr>,
      currentProfile_d = 0, message_dd = NoMessage_d, showModal = False, modalStep_d = ''limit''\<rparr>"

text \<open>
  A calendar for the examples: the first 24 hours of the epoch have one date, every other
  time another.
\<close>

definition exampleCalendar :: "int \<Rightarrow> string" where
  "exampleCalendar t =
     (if 0 \<le> t \<and> t < MILLISECONDS_IN_DAY then ''Thu Jan 01 1970'' else ''another day'')"

definition exampleClient :: "string \<Rightarrow> string \<Rightarrow> client" where
  "exampleClient u p =
     \<lparr>hasDb_m = True, userId = Some u, isLoading_m = False,
      profiles = [\<lparr>profileId = p, profileName = p\<rparr>], currentProfileIndex = 0,
      dailySwipeCount = 0, hasSubscriptionNFT = False, swipedProfileIds = {},
      matchesList = [], matchNotification = None, error_m = NoMessage_m\<rparr>"

section \<open>Properties of the transactional prototype\<close>

subsection \<open>The paths of \<open>handleSwipe\<close>\<close>

lemma ready_fields [simp]:
  "ready (s\<lparr>isLoading := l\<rparr>) = ready s"
  "ready (s\<lparr>userStatus := us\<rparr>) = ready s"
  "ready (s\<lparr>statusDoc := d\<rparr>) = ready s"
  "ready (s\<lparr>showLimitModal := m\<rparr>) = ready s"
  "ready (s\<lparr>message := msg\<rparr>) = ready s"
  by (simp_all add: ready_def)

lemma ready_make [simp]:
  "ready \<lparr>hasDbUser = a, isAuthReady = b, isLoading = l, userStatus = us, statusDoc = d,
          showLimitModal = m, message = msg\<rparr> = (a \<and> b)"
  by (simp add: ready_def)

lemma ready_hasDbUser: "ready s \<Longrightarrow> hasDbUser s"
  by (simp add: ready_def)

lemma showNewCount_fields [simp]:
  "statusDoc (showNewCount L n s) = statusDoc s"
  "userStatus (showNewCount L n s) = userStatus s"
  "ready (showNewCount L n s) = ready s"
  "isLoading (showNewCount L n s) = isLoading s"
  by (simp_all add: showNewCount_def)

lemma handleSwipe_limit_local:
  assumes "ready s" "\<not> isLoading s" "\<not> isPremium (userStatus s)" "L \<le> swipeCount (userStatus s)"
  shows "handleSwipe L now s = (LimitModal, s\<lparr>showLimitModal := True\<rparr>)"
  using assms by (simp add: handleSwipe_def)

lemma handleSwipe_limit_stored:
  assumes "ready s" "\<not> isLoading s" "\<not> isPremium (userStatus s)" "swipeCount (userStatus s) < L"
    and "statusDoc s = Some d" "L \<le> swipeCount d"
  shows "handleSwipe L now s = (TxLimitHit, s\<lparr>showLimitModal := True, message := SwipeLimitReached\<rparr>)"
  using assms by (simp add: handleSwipe_def swipeTransaction_def showNewCount_def)

lemma handleSwipe_consume:
  assumes "ready s" "\<not> isLoading s" "\<not> isPremium (userStatus s)" "swipeCount (userStatus s) < L"
    and "statusDoc s = Some d" "swipeCount d < L"
  shows "handleSwipe L now s =
           (Consumed (swipeCount d + 1),
            showNewCount L (swipeCount d + 1)
              (s\<lparr>statusDoc := Some (d\<lparr>swipeCount := swipeCount d + 1, lastSwipeDate := now\<rparr>)\<rparr>))"
  using assms by (simp add: handleSwipe_def swipeTransaction_def Let_def)

lemma handleSwipe_cases:
  "(fst (handleSwipe L now s) \<in> {NotReady, LimitModal, WriteFailed, TxLimitHit}
      \<or> fst (handleSwipe L now s) = PremiumSwipe \<and> isPremium (userStatus s))
     \<and> statusDoc (snd (handleSwipe L now s)) = statusDoc s
   \<or> (\<exists>d. statusDoc s = Some d \<and> swipeCount d < L \<and>
        fst (handleSwipe L now s) = Consumed (swipeCount d + 1) \<and>
        statusDoc (snd (handleSwipe L now s)) = Some (d\<lparr>swipeCount := swipeCount d + 1, lastSwipeDate := now\<rparr>))"
  by (auto simp add: handleSwipe_def swipeTransaction_def Let_def showNewCount_def split: option.splits)

lemma handleSwipe_Consumed:
  assumes "handleSwipe L now s = (Consumed n, s')"
  shows "\<exists>d. statusDoc s = Some d \<and> n = swipeCount d + 1
           \<and> statusDoc s' = Some (d\<lparr>swipeCount := swipeCount d + 1, lastSwipeDate := now\<rparr>)"
  using assms
  by (auto simp add: handleSwipe_def swipeTransaction_def Let_def split: if_splits option.splits)

lemma handleSwipe_no_reset:
  assumes "statusDoc s = Some d"
  shows "\<exists>d'. statusDoc (snd (handleSwipe L now s)) = Some d' \<and> swipeCount d \<le> swipeCount d'"
  using handleSwipe_cases[of L now s] assms by auto

lemma count_update_neq:
  "swipeCount d \<noteq> n \<Longrightarrow> d\<lparr>swipeCount := n, lastSwipeDate := t\<rparr> \<noteq> d"
  by (cases d) auto

subsection \<open>Sequences of calls\<close>

lemma swipeViews_count:
  assumes "statusDoc s = Some d" "swipeCount d \<le> L" "\<forall>(v, t) \<in> set cs. \<not> isPremium v"
  shows "\<exists>d'. statusDoc (snd (swipeViews L cs s)) = Some d'
           \<and> swipeCount d' = swipeCount d + length (filter allowed (fst (swipeViews L cs s)))
           \<and> swipeCount d' \<le> L"
  using assms
proof (induction cs arbitrary: s d)
  case Nil
  then show ?case by simp
next
  case (Cons a cs)
  obtain view now where a: "a = (view, now)" by (cases a)
  let ?s0 = "s\<lparr>userStatus := view\<rparr>"
  obtain out s1 where hs: "handleSwipe L now ?s0 = (out, s1)" by (cases "handleSwipe L now ?s0")
  from Cons.prems a have np: "\<not> isPremium view" and rest: "\<forall>(v, t) \<in> set cs. \<not> isPremium v"
    by auto
  from handleSwipe_cases[of L now ?s0] hs np Cons.prems(1,2)
  consider (same) "\<not> allowed out" "statusDoc s1 = Some d"
    | (inc) "allowed out" "statusDoc s1 = Some (d\<lparr>swipeCount := swipeCount d + 1, lastSwipeDate := now\<rparr>)"
            "swipeCount d < L"
    by auto
  then show ?case
  proof cases
    case same
    from Cons.IH[OF same(2) Cons.prems(2) rest] same(1) hs a
    show ?thesis by (auto simp add: split_beta)
  next
    case inc
    let ?d1 = "d\<lparr>swipeCount := swipeCount d + 1, lastSwipeDate := now\<rparr>"
    have le: "swipeCount ?d1 \<le> L" using inc(3) by simp
    from Cons.IH[OF inc(2) le rest] inc(1) hs a
    show ?thesis by (auto simp add: split_beta)
  qed
qed

lemma upt_first:
  assumes "c < L"
  shows "[c + 1 ..< min (c + Suc n) L + 1] = (c + 1) # [c + 1 + 1 ..< min (c + 1 + n) L + 1]"
proof -
  have lt: "c + 1 < min (c + 1 + n) L + 1" using assms by simp
  have "[c + 1 ..< min (c + 1 + n) L + 1] = (c + 1) # [Suc (c + 1) ..< min (c + 1 + n) L + 1]"
    using lt by (rule upt_conv_Cons)
  then show ?thesis by simp
qed

lemma swipeAndSync_lt:
  assumes "synced s c" "c < L"
  shows "fst (swipeAndSync L now s) = Consumed (c + 1) \<and> synced (snd (swipeAndSync L now s)) (c + 1)"
proof -
  from assms(1) have r: "ready s" "\<not> isLoading s" "\<not> isPremium (userStatus s)"
    and d: "statusDoc s = Some (userStatus s)" and c: "swipeCount (userStatus s) = c"
    by (simp_all add: synced_def)
  from assms(2) c have lt: "swipeCount (userStatus s) < L" by simp
  show ?thesis
    using handleSwipe_consume[OF r lt d lt, of now] c r d
      count_update_neq[of "userStatus s" "Suc c" now]
    by (simp add: swipeAndSync_def onStatusSnapshot_def resetSwipeCount_def synced_def
          MILLISECONDS_IN_DAY_def)
qed

lemma swipeAndSync_ge:
  assumes "synced s c" "L \<le> c"
  shows "fst (swipeAndSync L now s) = LimitModal \<and> synced (snd (swipeAndSync L now s)) c"
proof -
  from assms(1) have r: "ready s" "\<not> isLoading s" "\<not> isPremium (userStatus s)"
    and d: "statusDoc s = Some (userStatus s)" and c: "swipeCount (userStatus s) = c"
    by (simp_all add: synced_def)
  from assms(2) c have ge: "L \<le> swipeCount (userStatus s)" by simp
  show ?thesis
    using handleSwipe_limit_local[OF r ge, of now] c r d
    by (simp add: swipeAndSync_def synced_def)
qed

lemma swipeTimes_outcomes:
  assumes "synced s c" "c \<le> L"
  shows "fst (swipeTimes L ts s)
           = map Consumed [c + 1 ..< min (c + length ts) L + 1] @ replicate (c + length ts - L) LimitModal"
  using assms
proof (induction ts arbitrary: s c)
  case Nil
  then show ?case by simp
next
  case (Cons now ts)
  obtain out s1 where st: "swipeAndSync L now s = (out, s1)" by (cases "swipeAndSync L now s")
  show ?case
  proof (cases "c < L")
    case True
    from swipeAndSync_lt[OF Cons.prems(1) True, of now] st
    have out: "out = Consumed (c + 1)" and s1: "synced s1 (c + 1)" by simp_all
    from True have le: "c + 1 \<le> L" by simp
    have upt: "[c + 1 ..< min (c + length (now # ts)) L + 1]
                 = (c + 1) # [c + 1 + 1 ..< min (c + 1 + length ts) L + 1]"
      using upt_first[OF True, of "length ts"] by simp
    from Cons.IH[OF s1 le] st out upt show ?thesis
      by (simp add: split_beta)
  next
    case False
    with Cons.prems(2) have eq: "c = L" by simp
    from swipeAndSync_ge[OF Cons.prems(1), of L now] eq st
    have out: "out = LimitModal" and s1: "synced s1 c" by simp_all
    from Cons.IH[OF s1 Cons.prems(2)] st out eq show ?thesis
      by (simp add: split_beta replicate_app_Cons_same)
  qed
qed

lemma step_lagging:
  assumes "lagging s d"
  shows "now - lastSwipeDate d < MILLISECONDS_IN_DAY \<Longrightarrow>
           lagging (step L (Snapshot now) s) d"
    and "swipeCount d < L \<Longrightarrow>
           lagging (step L (Swipe now) s) (d\<lparr>swipeCount := swipeCount d + 1, lastSwipeDate := now\<rparr>)"
proof -
  from assms have r: "ready s" "\<not> isLoading s" "\<not> isPremium (userStatus s)"
    and d: "statusDoc s = Some d" and le: "swipeCount (userStatus s) \<le> swipeCount d"
    and np: "\<not> isPremium d"
    by (simp_all add: lagging_def)
  show "now - lastSwipeDate d < MILLISECONDS_IN_DAY \<Longrightarrow> lagging (step L (Snapshot now) s) d"
    using r d np by (simp add: onStatusSnapshot_def resetSwipeCount_def lagging_def)
  assume lt: "swipeCount d < L"
  with le have lt': "swipeCount (userStatus s) < L" by simp
  show "lagging (step L (Swipe now) s) (d\<lparr>swipeCount := swipeCount d + 1, lastSwipeDate := now\<rparr>)"
    using handleSwipe_consume[OF r lt' d lt, of now] r np le
    by (simp add: lagging_def)
qed

lemma run_no_reset:
  assumes "lagging s d" "withinDay (lastSwipeDate d) es" "swipeCount d + swipesIn es \<le> L"
  shows "\<exists>d'. statusDoc (run L es s) = Some d' \<and> swipeCount d' = swipeCount d + swipesIn es"
  using assms
proof (induction es arbitrary: s d)
  case Nil
  then show ?case by (simp add: lagging_def)
next
  case (Cons e es)
  show ?case
  proof (cases e)
    case (Swipe now)
    let ?d1 = "d\<lparr>swipeCount := swipeCount d + 1, lastSwipeDate := now\<rparr>"
    from Cons.prems(3) Swipe have lt: "swipeCount d < L" by simp
    have l1: "lagging (step L (Swipe now) s) ?d1"
      using step_lagging(2)[OF Cons.prems(1) lt] .
    have w1: "withinDay (lastSwipeDate ?d1) es" using Cons.prems(2) Swipe by simp
    have c1: "swipeCount ?d1 + swipesIn es \<le> L" using Cons.prems(3) Swipe by simp
    from Cons.IH[OF l1 w1 c1] Swipe show ?thesis by simp
  next
    case (Snapshot now)
    from Cons.prems(2) Snapshot have el: "now - lastSwipeDate d < MILLISECONDS_IN_DAY"
      and w1: "withinDay (lastSwipeDate d) es" by simp_all
    have l1: "lagging (step L (Snapshot now) s) d"
      using step_lagging(1)[OF Cons.prems(1) el] .
    have c1: "swipeCount d + swipesIn es \<le> L" using Cons.prems(3) Snapshot by simp
    from Cons.IH[OF l1 w1 c1] Snapshot show ?thesis by simp
  qed
qed

subsection \<open>The snapshot listener\<close>

lemma resetSwipeCount_zero:
  "swipeCount cur = 0 \<Longrightarrow> resetSwipeCount now cur s = s"
  by (simp add: resetSwipeCount_def)

lemma onStatusSnapshot_doc:
  assumes "statusDoc s = Some d"
  shows "statusDoc (onStatusSnapshot now s) =
           (if \<not> isPremium d \<and> now - lastSwipeDate d \<ge> MILLISECONDS_IN_DAY \<and> swipeCount d > 0
            then Some (d\<lparr>swipeCount := 0, lastSwipeDate := now\<rparr>) else Some d)"
  using assms by (simp add: onStatusSnapshot_def resetSwipeCount_def)

section \<open>Properties of the untransacted prototype\<close>

lemma swipesToday_update_neq:
  "swipesToday d \<noteq> n \<Longrightarrow> d\<lparr>swipesToday := n, matches_n := m\<rparr> \<noteq> d"
  "swipesToday d \<noteq> n \<Longrightarrow> d\<lparr>swipesToday := n\<rparr> \<noteq> d"
  by (cases d; auto)+

lemma swipeAndSync_n_step:
  assumes "synced_n today s" "swipesToday (userStatus_n s) \<le> L"
  shows "synced_n today (snd (swipeAndSync_n L today direction s))
         \<and> swipesToday (userStatus_n (snd (swipeAndSync_n L today direction s)))
             = swipesToday (userStatus_n s) + (if allowed (fst (swipeAndSync_n L today direction s)) then 1 else 0)
         \<and> swipesToday (userStatus_n (snd (swipeAndSync_n L today direction s))) \<le> L"
proof (cases "swipesToday (userStatus_n s) < L \<and> userId_n s \<noteq> []")
  case False
  then show ?thesis using assms
    by (auto simp add: swipeAndSync_n_def handleSwipe_n_def synced_n_def swipesRemaining_n_def
          swipeLimit_def handleUpgrade_def)
next
  case True
  show ?thesis
  proof (cases "hasDb s")
    case db: True
    with assms have doc: "statusDoc_n s = Some (userStatus_n s)" by (simp add: synced_n_def)
    show ?thesis using True assms db doc
      by (simp add: swipeAndSync_n_def handleSwipe_n_def synced_n_def swipesRemaining_n_def
          swipeLimit_def Let_def onStatusSnapshot_n_def swipesToday_update_neq)
  next
    case False
    then show ?thesis using True assms
      by (simp add: swipeAndSync_n_def handleSwipe_n_def synced_n_def swipesRemaining_n_def
          swipeLimit_def Let_def)
  qed
qed

lemma swipeTimes_n_count:
  assumes "synced_n today s" "swipesToday (userStatus_n s) \<le> L"
  shows "synced_n today (snd (swipeTimes_n L today ds s))
         \<and> swipesToday (userStatus_n (snd (swipeTimes_n L today ds s)))
             = swipesToday (userStatus_n s) + length (filter allowed (fst (swipeTimes_n L today ds s)))
         \<and> swipesToday (userStatus_n (snd (swipeTimes_n L today ds s))) \<le> L"
  using assms
proof (induction ds arbitrary: s)
  case Nil
  then show ?case by simp
next
  case (Cons a ds)
  obtain out s1 where st: "swipeAndSync_n L today a s = (out, s1)"
    by (cases "swipeAndSync_n L today a s")
  from swipeAndSync_n_step[OF Cons.prems, of a] st
  have s1: "synced_n today s1" "swipesToday (userStatus_n s1) \<le> L"
    and c1: "swipesToday (userStatus_n s1) = swipesToday (userStatus_n s) + (if allowed out then 1 else 0)"
    by simp_all
  from Cons.IH[OF s1] c1 st show ?case
    by (auto simp add: split_beta)
qed

lemma handleSwipe_n_stored:
  assumes "hasDb s" "statusDoc_n s = Some d" "swipesToday d \<le> L" "\<not> isPremium_n view"
  shows "hasDb (snd (handleSwipe_n L direction (s\<lparr>userStatus_n := view\<rparr>)))
         \<and> (\<exists>d'. statusDoc_n (snd (handleSwipe_n L direction (s\<lparr>userStatus_n := view\<rparr>))) = Some d'
                \<and> swipesToday d' \<le> L)"
  using assms
  by (auto simp add: handleSwipe_n_def swipesRemaining_n_def swipeLimit_def handleUpgrade_def Let_def)

lemma swipeViews_n_stored:
  assumes "hasDb s" "statusDoc_n s = Some d" "swipesToday d \<le> L"
    "\<forall>(v, direction) \<in> set cs. \<not> isPremium_n v"
  shows "\<exists>d'. statusDoc_n (snd (swipeViews_n L cs s)) = Some d' \<and> swipesToday d' \<le> L"
  using assms
proof (induction cs arbitrary: s d)
  case Nil
  then show ?case by simp
next
  case (Cons a cs)
  obtain view direction where a: "a = (view, direction)" by (cases a)
  obtain out s1 where hs: "handleSwipe_n L direction (s\<lparr>userStatus_n := view\<rparr>) = (out, s1)"
    by (cases "handleSwipe_n L direction (s\<lparr>userStatus_n := view\<rparr>)")
  from Cons.prems(4) a have np: "\<not> isPremium_n view"
    and rest: "\<forall>(v, direction) \<in> set cs. \<not> isPremium_n v" by auto
  from handleSwipe_n_stored[OF Cons.prems(1-3) np, of direction] hs
  obtain d1 where s1: "hasDb s1" "statusDoc_n s1 = Some d1" "swipesToday d1 \<le> L" by auto
  from Cons.IH[OF s1 rest] hs a show ?case by (simp add: split_beta)
qed

section \<open>Properties of the calendar-day prototype\<close>

lemma swipesToday_d_update_neq:
  "swipesToday_d d \<noteq> n \<Longrightarrow> d\<lparr>swipesToday_d := n\<rparr> \<noteq> d"
  by (cases d) auto

lemma swipeAndSync_d_lt:
  assumes "synced_d s c" "c < L" "onDay toDateString now s"
  shows "fst (swipeAndSync_d L toDateString now direction s) = Consumed (c + 1)
         \<and> synced_d (snd (swipeAndSync_d L toDateString now direction s)) (c + 1)
         \<and> lastReset (swipeData (snd (swipeAndSync_d L toDateString now direction s))) = lastReset (swipeData s)"
  using assms
  by (auto simp add: swipeAndSync_d_def handleSwipe_d_def synced_d_def onStatusSnapshot_d_def Let_def
        settle_d_def resetEffect_d_def onDay_def swipesToday_d_update_neq split: option.splits)

lemma swipeAndSync_d_ge:
  assumes "synced_d s c" "L \<le> c"
  shows "fst (swipeAndSync_d L toDateString now direction s) = LimitModal
         \<and> synced_d (snd (swipeAndSync_d L toDateString now direction s)) c
         \<and> lastReset (swipeData (snd (swipeAndSync_d L toDateString now direction s))) = lastReset (swipeData s)"
  using assms
  by (auto simp add: swipeAndSync_d_def handleSwipe_d_def synced_d_def Let_def
        split: option.splits)

lemma swipeTimes_d_outcomes:
  assumes "synced_d s c" "c \<le> L" "\<forall>(now, direction) \<in> set cs. onDay toDateString now s"
  shows "fst (swipeTimes_d L toDateString cs s)
           = map Consumed [c + 1 ..< min (c + length cs) L + 1] @ replicate (c + length cs - L) LimitModal"
  using assms
proof (induction cs arbitrary: s c)
  case Nil
  then show ?case by simp
next
  case (Cons a cs)
  obtain now direction where a: "a = (now, direction)" by (cases a)
  obtain out s1 where st: "swipeAndSync_d L toDateString now direction s = (out, s1)"
    by (cases "swipeAndSync_d L toDateString now direction s")
  from Cons.prems(3) a have day: "onDay toDateString now s"
    and days: "\<forall>(now, direction) \<in> set cs. onDay toDateString now s" by auto
  show ?case
  proof (cases "c < L")
    case True
    from swipeAndSync_d_lt[OF Cons.prems(1) True day, of direction] st
    have out: "out = Consumed (c + 1)" and s1: "synced_d s1 (c + 1)"
      and lr: "lastReset (swipeData s1) = lastReset (swipeData s)" by simp_all
    from days lr have days1: "\<forall>(now, direction) \<in> set cs. onDay toDateString now s1"
      by (simp add: onDay_def)
    from True have le: "c + 1 \<le> L" by simp
    have upt: "[c + 1 ..< min (c + length (a # cs)) L + 1]
                 = (c + 1) # [c + 1 + 1 ..< min (c + 1 + length cs) L + 1]"
      using upt_first[OF True, of "length cs"] by simp
    from Cons.IH[OF s1 le days1] st out upt a show ?thesis
      by (simp add: split_beta)
  next
    case False
    with Cons.prems(2) have eq: "c = L" by simp
    from swipeAndSync_d_ge[OF Cons.prems(1), of L toDateString now direction] eq st
    have out: "out = LimitModal" and s1: "synced_d s1 c"
      and lr: "lastReset (swipeData s1) = lastReset (swipeData s)" by simp_all
    from days lr have days1: "\<forall>(now, direction) \<in> set cs. onDay toDateString now s1"
      by (simp add: onDay_def)
    from Cons.IH[OF s1 Cons.prems(2) days1] st out eq a show ?thesis
      by (simp add: split_beta replicate_app_Cons_same)
  qed
qed

section \<open>Premium users and the rollover\<close>

lemma handleSwipe_premium:
  assumes "ready s" "\<not> isLoading s" "isPremium (userStatus s)"
  shows "handleSwipe L now s = (PremiumSwipe, s\<lparr>message := SwipeUnlimited\<rparr>)"
  using assms by (simp add: handleSwipe_def)

lemma swipeTimes_premium:
  assumes "ready s" "\<not> isLoading s" "isPremium (userStatus s)"
  shows "list_all allowed (fst (swipeTimes L ts s))"
  using assms
proof (induction ts arbitrary: s)
  case Nil
  then show ?case by simp
next
  case (Cons now ts)
  let ?s1 = "s\<lparr>message := SwipeUnlimited\<rparr>"
  have st: "swipeAndSync L now s = (PremiumSwipe, ?s1)"
    using handleSwipe_premium[OF Cons.prems, of L now] by (simp add: swipeAndSync_def)
  have "list_all allowed (fst (swipeTimes L ts ?s1))"
    using Cons.prems by (intro Cons.IH) simp_all
  with st show ?case by (simp add: split_beta)
qed

lemma handleGoPremium_doc:
  assumes "ready s" "statusDoc s = Some d"
  shows "handleGoPremium s = s\<lparr>statusDoc := Some (d\<lparr>isPremium := True, swipeCount := 0\<rparr>),
                              message := PremiumActivated\<rparr>"
  using assms by (simp add: handleGoPremium_def ready_hasDbUser)

lemma handleGoPremium_idem:
  "handleGoPremium (handleGoPremium s) = handleGoPremium s"
  by (simp add: handleGoPremium_def split: option.splits)

lemma handleMintNFT_idem:
  "handleMintNFT w (handleMintNFT w s) = handleMintNFT w s"
  by (simp add: handleMintNFT_def Let_def split: option.splits)

lemma handleMintNFT_premium:
  assumes "userId_n s \<noteq> []" "hasDb s \<longrightarrow> statusDoc_n s \<noteq> None"
  shows "premium_n (handleMintNFT w s)"
  using assms by (auto simp add: handleMintNFT_def premium_n_def Let_def split: option.splits)

lemma swipeAndSync_n_premium:
  assumes "premium_n s"
  shows "fst (swipeAndSync_n L today direction s) = PremiumSwipe
         \<and> premium_n (snd (swipeAndSync_n L today direction s))"
  using assms
  by (auto simp add: premium_n_def swipeAndSync_n_def handleSwipe_n_def onStatusSnapshot_n_def
        Let_def split: option.splits if_splits)

lemma swipeTimes_n_premium:
  assumes "premium_n s"
  shows "list_all allowed (fst (swipeTimes_n L today ds s))"
  using assms
proof (induction ds arbitrary: s)
  case Nil
  then show ?case by simp
next
  case (Cons a ds)
  obtain out s1 where st: "swipeAndSync_n L today a s = (out, s1)"
    by (cases "swipeAndSync_n L today a s")
  from swipeAndSync_n_premium[OF Cons.prems, of L today a] st
  have "out = PremiumSwipe" "premium_n s1" by simp_all
  with Cons.IH[of s1] st show ?case by (simp add: split_beta)
qed

lemma consume_after_reset:
  assumes "ready s" "statusDoc s = Some d" "\<not> isPremium d" "0 < swipeCount d"
    and "now - lastSwipeDate d \<ge> MILLISECONDS_IN_DAY" "0 < L"
  shows "fst (handleSwipe L t (onStatusSnapshot now' (onStatusSnapshot now s))) = Consumed 1"
proof -
  let ?d0 = "d\<lparr>swipeCount := 0, lastSwipeDate := now\<rparr>"
  let ?s2 = "onStatusSnapshot now' (onStatusSnapshot now s)"
  have "ready ?s2" "\<not> isLoading ?s2" "\<not> isPremium (userStatus ?s2)"
    "swipeCount (userStatus ?s2) < L" "statusDoc ?s2 = Some ?d0" "swipeCount ?d0 < L"
    using assms by (simp_all add: onStatusSnapshot_def resetSwipeCount_def)
  from handleSwipe_consume[OF this, of t] show ?thesis by simp
qed


section \<open>Properties of the matchmaking prototype\<close>

lemma matchIdOf_commute: "matchIdOf a b = matchIdOf b a"
  by (auto simp add: matchIdOf_def)

lemma checkForMatch_result:
  "checkForMatch u p name now (c, st) =
     (if likeRecord st p u
      then (Some (matchIdOf u p),
            c\<lparr>matchNotification := Some (name, p),
              matchesList := matchesList c @ [(p, name, matchIdOf u p)]\<rparr>,
            st\<lparr>matches := (matches st)(u := (matches st u)
                    (matchIdOf u p \<mapsto> \<lparr>partnerId = p, timestamp_m = now\<rparr>))\<rparr>)
      else (None, c, st))"
  by (simp add: checkForMatch_def likeRecord_def Let_def)

lemma likeRecord_iff:
  "likeRecord st a b = (\<exists>l \<in> set (publicLikes st). likerId l = a \<and> likedId l = b)"
  by (auto simp add: likeRecord_def likesFromTo_def filter_empty_conv)

text \<open>The effect of a like that passes the guards, on the store and in the result.\<close>

lemma handleSwipe_m_like_unfold:
  assumes "showing c u p"
  shows "handleSwipe_m ''like'' now (c, st) =
     (case checkForMatch u p (profileName (profiles c ! currentProfileIndex c)) now
        (c\<lparr>swipedProfileIds := insert p (swipedProfileIds c),
           dailySwipeCount := dailySwipeCount c + 1\<rparr>,
         st\<lparr>metadata := (metadata st)(u \<mapsto>
                (case metadata st u of
                   None \<Rightarrow> \<lparr>dailySwipeCount_doc = dailySwipeCount c + 1, lastSwipeReset = Some now,
                             hasSubscriptionNFT_doc = False\<rparr>
                 | Some m \<Rightarrow> m\<lparr>dailySwipeCount_doc := dailySwipeCount c + 1,
                                lastSwipeReset := Some now\<rparr>)),
            privateLikes := (privateLikes st)(u := (privateLikes st u)
                (p \<mapsto> \<lparr>likedProfileId = p, action_l = ''like'', timestamp_l = now\<rparr>)),
            publicLikes := publicLikes st @ [\<lparr>likerId = u, likedId = p, timestamp_p = now\<rparr>]\<rparr>)
      of (m, c2, st3) \<Rightarrow>
        (Recorded m, c2\<lparr>currentProfileIndex := currentProfileIndex c + 1\<rparr>, st3))"
proof -
  from assms have g: "userId c = Some u" "hasDb_m c" "\<not> isLoading_m c"
    "currentProfileIndex c < length (profiles c)"
    "profileId (profiles c ! currentProfileIndex c) = p"
    "\<not> (dailySwipeCount c \<ge> MAX_SWIPES_PER_DAY \<and> \<not> hasSubscriptionNFT c)"
    by (simp_all add: showing_def)
  from g(6) have lim: "(dailySwipeCount c \<ge> MAX_SWIPES_PER_DAY \<and> \<not> hasSubscriptionNFT c) = False"
    by blast
  show ?thesis
    unfolding handleSwipe_m_def Let_def using g(1-5) by (simp add: lim)
qed

lemma handleSwipe_m_like:
  assumes "showing c u p"
  shows "resultOf ''like'' now c st
           = Recorded (if likeRecord st p u \<or> p = u then Some (matchIdOf u p) else None)"
    and "publicLikes (storeAfter ''like'' now c st)
           = publicLikes st @ [\<lparr>likerId = u, likedId = p, timestamp_p = now\<rparr>]"
    and "matches (storeAfter ''like'' now c st)
           = (if likeRecord st p u \<or> p = u
              then (matches st)(u := (matches st u)
                      (matchIdOf u p \<mapsto> \<lparr>partnerId = p, timestamp_m = now\<rparr>))
              else matches st)"
    and "privateLikes (storeAfter ''like'' now c st)
           = (privateLikes st)(u := (privateLikes st u)
                (p \<mapsto> \<lparr>likedProfileId = p, action_l = ''like'', timestamp_l = now\<rparr>))"
  unfolding resultOf_def storeAfter_def handleSwipe_m_like_unfold[OF assms] checkForMatch_result
  by (auto simp add: likeRecord_iff)








lemma likeRecord_after_like:
  assumes "showing c u p"
  shows "likeRecord (storeAfter ''like'' now c st) a b = (likeRecord st a b \<or> (a = u \<and> b = p))"
  using handleSwipe_m_like(2)[OF assms, of now st]
  by (auto simp add: likeRecord_iff)





lemma showing_exampleClient: "showing (exampleClient u p) u p"
  by (simp add: showing_def exampleClient_def MAX_SWIPES_PER_DAY_def)


lemma likeRecord_emptyStore: "likeRecord emptyStore a b = False"
  by (simp add: likeRecord_def likesFromTo_def emptyStore_def)




subsection \<open>Distinguishable match ids\<close>

lemma split_at_underscore:
  assumes "CHR ''_'' \<notin> set x" "CHR ''_'' \<notin> set x'" "x @ ''_'' @ y = x' @ ''_'' @ y'"
  shows "x = x' \<and> y = y'"
proof -
  have "takeWhile (\<lambda>c. c \<noteq> CHR ''_'') (x @ ''_'' @ y) = x"
    using assms(1) by (auto simp add: takeWhile_tail takeWhile_eq_all_conv)
  moreover have "takeWhile (\<lambda>c. c \<noteq> CHR ''_'') (x' @ ''_'' @ y') = x'"
    using assms(2) by (auto simp add: takeWhile_tail takeWhile_eq_all_conv)
  ultimately have "x = x'" using assms(3) by simp
  with assms(3) show ?thesis by simp
qed

lemma keysDistinct_no_underscore:
  assumes "\<forall>u\<in>U. CHR ''_'' \<notin> set u"
  shows "keysDistinct U"
  unfolding keysDistinct_def
proof (intro ballI impI)
  fix u p q assume m: "u \<in> U" "p \<in> U" "q \<in> U" and e: "matchIdOf u p = matchIdOf u q"
  from assms m have n: "CHR ''_'' \<notin> set u" "CHR ''_'' \<notin> set p" "CHR ''_'' \<notin> set q" by auto
  show "p = q"
  proof (cases "p < u")
    case True
    show ?thesis
    proof (cases "q < u")
      case q: True
      from e True q have "p @ ''_'' @ u = q @ ''_'' @ u" by (simp add: matchIdOf_def)
      from split_at_underscore[OF n(2) n(3) this] show ?thesis by simp
    next
      case q: False
      from e True q have "p @ ''_'' @ u = u @ ''_'' @ q" by (simp add: matchIdOf_def)
      from split_at_underscore[OF n(2) n(1) this] show ?thesis by simp
    qed
  next
    case False
    show ?thesis
    proof (cases "q < u")
      case q: True
      from e False q have "u @ ''_'' @ p = q @ ''_'' @ u" by (simp add: matchIdOf_def)
      from split_at_underscore[OF n(1) n(3) this] show ?thesis by simp
    next
      case q: False
      from e False q have "u @ ''_'' @ p = u @ ''_'' @ q" by (simp add: matchIdOf_def)
      then show ?thesis by simp
    qed
  qed
qed

lemma keysDistinct_mock: "keysDistinct (set MOCK_PROFILE_IDS)"
  by (simp add: keysDistinct_def MOCK_PROFILE_IDS_def matchIdOf_def)

lemma matchIdOf_collision:
  "matchIdOf ''_z_'' ''_z'' = matchIdOf ''_z_'' ''z_'' \<and> ''_z'' \<noteq> ''z_''"
  by (simp add: matchIdOf_def)



section \<open>The claims about the quota\<close>

text \<open>
  C1, as stated, fails in the untransacted prototype: its \<open>handleSwipe\<close> checks and
  writes the local count without reading the store, so two components that hold the
  same count are both allowed. With the limit 1 and nothing used, two such calls are
  allowed; with the limit 50 and 49 used, two calls are allowed where one swipe was
  left.
\<close>

theorem stale_callers_counterexample:
  "fst (swipeViews_n 1 [(exampleStatus_n 0, ''LIKE''), (exampleStatus_n 0, ''LIKE'')]
          (exampleState_n 0))
     = [Consumed 1, Consumed 1]
   \<and> fst (swipeViews_n 50 [(exampleStatus_n 49, ''LIKE''), (exampleStatus_n 49, ''LIKE'')]
            (exampleState_n 49))
     = [Consumed 50, Consumed 50]"
  by (simp add: handleSwipe_n_def exampleState_n_def exampleStatus_n_def initialStatus_def
        swipesRemaining_n_def swipeLimit_def)

text \<open>
  C1, amended. Within one window (no rollover, no upgrade): in the transactional
  prototype, for every sequence of calls, whatever (possibly stale) local status of a
  user who is not premium each caller holds, the stored count grows by exactly the
  number of allowed calls and stays at or below \<open>L\<close>, so the number of allowed calls
  never exceeds \<open>L\<close>. In the untransacted prototype the stored count never exceeds \<open>L\<close>
  for every such sequence, and the number of allowed calls never exceeds \<open>L\<close> for calls
  made one after the other, each seeing the status the previous one left.
\<close>

theorem quota_never_exceeded:
  assumes "statusDoc s = Some d" and "swipeCount d \<le> L"
    and "\<forall>(v, t) \<in> set cs. \<not> isPremium v"
    and "synced_n today sn" and "swipesToday (userStatus_n sn) \<le> L"
    and "hasDb sv" and "statusDoc_n sv = Some dv" and "swipesToday dv \<le> L"
    and "\<forall>(v, direction) \<in> set vs. \<not> isPremium_n v"
  shows "length (filter allowed (fst (swipeViews L cs s))) \<le> L
       \<and> (\<exists>d'. statusDoc (snd (swipeViews L cs s)) = Some d'
              \<and> swipeCount d' = swipeCount d + length (filter allowed (fst (swipeViews L cs s)))
              \<and> swipeCount d' \<le> L)
       \<and> length (filter allowed (fst (swipeTimes_n L today ds sn))) \<le> L
       \<and> swipesToday (userStatus_n (snd (swipeTimes_n L today ds sn)))
            = swipesToday (userStatus_n sn) + length (filter allowed (fst (swipeTimes_n L today ds sn)))
       \<and> swipesToday (userStatus_n (snd (swipeTimes_n L today ds sn))) \<le> L
       \<and> (hasDb (snd (swipeTimes_n L today ds sn)) \<longrightarrow>
            statusDoc_n (snd (swipeTimes_n L today ds sn))
              = Some (userStatus_n (snd (swipeTimes_n L today ds sn))))
       \<and> (\<exists>d'. statusDoc_n (snd (swipeViews_n L vs sv)) = Some d' \<and> swipesToday d' \<le> L)"
proof -
  from swipeViews_count[OF assms(1-3)]
  obtain d' where d': "statusDoc (snd (swipeViews L cs s)) = Some d'"
    "swipeCount d' = swipeCount d + length (filter allowed (fst (swipeViews L cs s)))"
    "swipeCount d' \<le> L"
    by blast
  then have a: "length (filter allowed (fst (swipeViews L cs s))) \<le> L" by simp
  from swipeTimes_n_count[OF assms(4,5), of ds]
  have n: "synced_n today (snd (swipeTimes_n L today ds sn))"
    "swipesToday (userStatus_n (snd (swipeTimes_n L today ds sn)))
       = swipesToday (userStatus_n sn) + length (filter allowed (fst (swipeTimes_n L today ds sn)))"
    "swipesToday (userStatus_n (snd (swipeTimes_n L today ds sn))) \<le> L"
    by simp_all
  then have b: "length (filter allowed (fst (swipeTimes_n L today ds sn))) \<le> L" by simp
  from n(1) have c: "hasDb (snd (swipeTimes_n L today ds sn)) \<longrightarrow>
            statusDoc_n (snd (swipeTimes_n L today ds sn))
              = Some (userStatus_n (snd (swipeTimes_n L today ds sn)))"
    by (simp add: synced_n_def)
  note e = swipeViews_n_stored[OF assms(6-9)]
  from a d' b n(2,3) c e show ?thesis by blast
qed

theorem quota_never_exceeded_witness:
  "statusDoc (exampleState 49 False) = Some (exampleStatus 49 False)
   \<and> swipeCount (exampleStatus 49 False) \<le> 50
   \<and> \<not> isPremium (exampleStatus 49 False)
   \<and> synced_n ''2026-11-02'' (exampleState_n 49)
   \<and> swipesToday (userStatus_n (exampleState_n 49)) \<le> 50
   \<and> hasDb (exampleState_n 49) \<and> statusDoc_n (exampleState_n 49) = Some (exampleStatus_n 49)
   \<and> swipesToday (exampleStatus_n 49) \<le> 50 \<and> \<not> isPremium_n (exampleStatus_n 49)
   \<and> fst (swipeViews 50 [(exampleStatus 49 False, 1), (exampleStatus 49 False, 2)] (exampleState 49 False))
        = [Consumed 50, TxLimitHit]
   \<and> length (filter allowed (fst (swipeViews 50 [(exampleStatus 49 False, 1), (exampleStatus 49 False, 2)]
        (exampleState 49 False)))) \<le> 50
   \<and> fst (swipeTimes_n 50 ''2026-11-02'' [''LIKE'', ''DISLIKE''] (exampleState_n 49))
        = [Consumed 50, LimitModal]
   \<and> swipesToday (userStatus_n (snd (swipeTimes_n 50 ''2026-11-02'' [''LIKE'', ''DISLIKE'']
        (exampleState_n 49)))) \<le> 50
   \<and> (\<exists>d'. statusDoc_n (snd (swipeViews_n 50
                 [(exampleStatus_n 49, ''LIKE''), (exampleStatus_n 49, ''LIKE'')] (exampleState_n 49)))
               = Some d' \<and> swipesToday d' \<le> 50)"
proof -
  have h1: "statusDoc (exampleState 49 False) = Some (exampleStatus 49 False)"
    by (simp add: exampleState_def)
  have h2: "swipeCount (exampleStatus 49 False) \<le> 50"
    by (simp add: exampleStatus_def)
  have h3: "\<forall>(v, t) \<in> set [(exampleStatus 49 False, 1::int), (exampleStatus 49 False, 2)]. \<not> isPremium v"
    by (simp add: exampleStatus_def)
  have h4: "synced_n ''2026-11-02'' (exampleState_n 49)"
    by (simp add: synced_n_def exampleState_n_def exampleStatus_n_def initialStatus_def)
  have h5: "swipesToday (userStatus_n (exampleState_n 49)) \<le> 50"
    by (simp add: exampleState_n_def exampleStatus_n_def)
  have h6: "hasDb (exampleState_n 49)" and h7: "statusDoc_n (exampleState_n 49) = Some (exampleStatus_n 49)"
    by (simp_all add: exampleState_n_def)
  have h8: "swipesToday (exampleStatus_n 49) \<le> 50" and h9': "\<not> isPremium_n (exampleStatus_n 49)"
    by (simp_all add: exampleStatus_n_def initialStatus_def)
  from h9' have h9: "\<forall>(v, direction) \<in> set [(exampleStatus_n 49, ''LIKE''), (exampleStatus_n 49, ''LIKE'')].
                       \<not> isPremium_n v"
    by simp
  have e1: "fst (swipeViews 50 [(exampleStatus 49 False, 1), (exampleStatus 49 False, 2)] (exampleState 49 False))
        = [Consumed 50, TxLimitHit]"
    by (simp add: exampleState_def exampleStatus_def handleSwipe_def swipeTransaction_def
          showNewCount_def)
  have e2: "fst (swipeTimes_n 50 ''2026-11-02'' [''LIKE'', ''DISLIKE''] (exampleState_n 49))
        = [Consumed 50, LimitModal]"
    by (simp add: exampleState_n_def exampleStatus_n_def initialStatus_def swipeAndSync_n_def
          handleSwipe_n_def swipesRemaining_n_def swipeLimit_def onStatusSnapshot_n_def
          handleUpgrade_def arrayUnion_def currentProfile_n_def MOCK_PROFILES_n_def)
  note q = quota_never_exceeded[OF h1 h2 h3 h4 h5 h6 h7 h8 h9, of "[''LIKE'', ''DISLIKE'']"]
  from q have t1: "length (filter allowed (fst (swipeViews 50 [(exampleStatus 49 False, 1), (exampleStatus 49 False, 2)]
        (exampleState 49 False)))) \<le> 50"
    by (elim conjE)
  from q have t2: "swipesToday (userStatus_n (snd (swipeTimes_n 50 ''2026-11-02'' [''LIKE'', ''DISLIKE'']
        (exampleState_n 49)))) \<le> 50"
    by (elim conjE)
  from q have t3: "\<exists>d'. statusDoc_n (snd (swipeViews_n 50
                 [(exampleStatus_n 49, ''LIKE''), (exampleStatus_n 49, ''LIKE'')] (exampleState_n 49)))
               = Some d' \<and> swipesToday d' \<le> 50"
    by (elim conjE)
  have h3': "\<not> isPremium (exampleStatus 49 False)"
    by (simp add: exampleStatus_def)
  from h1 h2 h3' h4 h5 h6 h7 h8 h9' e1 t1 e2 t2 t3 show ?thesis by (intro conjI)
qed

text \<open>
  C2. With the limit 50 and a fresh user who is not premium, the first 50 calls are
  allowed with the remaining budget going from 49 down to 0, and the 51st call is
  blocked with remaining 0. Each call is followed by the snapshot that its write
  triggers; this holds in the transactional prototype, and in the calendar-day
  prototype for calls on the calendar day of the stored reset date.
\<close>

theorem fifty_allowed_then_blocked:
  assumes "synced s 0" and "length ts = 51" and "synced_d sd 0" and "length cs = 51"
    and "\<forall>(now, direction) \<in> set cs. onDay toDateString now sd"
  shows "map (\<lambda>out. (allowed out, remaining DAILY_LIMIT out)) (fst (swipeTimes DAILY_LIMIT ts s))
           = map (\<lambda>k. (True, Some (50 - k))) [1 ..< 51] @ [(False, Some 0)]
       \<and> map (\<lambda>out. (allowed out, remaining DAILY_SWIPE_LIMIT out))
             (fst (swipeTimes_d DAILY_SWIPE_LIMIT toDateString cs sd))
           = map (\<lambda>k. (True, Some (50 - k))) [1 ..< 51] @ [(False, Some 0)]"
proof -
  have a: "fst (swipeTimes 50 ts s) = map Consumed [1 ..< 51] @ [LimitModal]"
    using swipeTimes_outcomes[OF assms(1), of 50 ts] assms(2) by simp
  have b: "fst (swipeTimes_d 50 toDateString cs sd) = map Consumed [1 ..< 51] @ [LimitModal]"
    using swipeTimes_d_outcomes[OF assms(3) _ assms(5), of 50] assms(4) by simp
  have m: "map (\<lambda>out. (allowed out, remaining 50 out)) (map Consumed [1 ..< 51] @ [LimitModal])
             = map (\<lambda>k. (True, Some (50 - k))) [1 ..< 51] @ [(False, Some 0)]"
    by (simp add: comp_def)
  from a b m show ?thesis by (simp only: DAILY_LIMIT_def DAILY_SWIPE_LIMIT_def)
qed

theorem fifty_allowed_then_blocked_witness:
  "synced (exampleState 0 False) 0 \<and> length (replicate 51 (1000::int)) = 51
   \<and> synced_d (exampleState_d 0 False) 0 \<and> length (replicate 51 (1000::int, ''LIKE'')) = 51
   \<and> onDay exampleCalendar 1000 (exampleState_d 0 False)
   \<and> map (\<lambda>out. (allowed out, remaining DAILY_LIMIT out))
         (fst (swipeTimes DAILY_LIMIT (replicate 51 1000) (exampleState 0 False)))
        = map (\<lambda>k. (True, Some (50 - k))) [1 ..< 51] @ [(False, Some 0)]
   \<and> map (\<lambda>out. (allowed out, remaining DAILY_SWIPE_LIMIT out))
         (fst (swipeTimes_d DAILY_SWIPE_LIMIT exampleCalendar (replicate 51 (1000, ''LIKE''))
            (exampleState_d 0 False)))
        = map (\<lambda>k. (True, Some (50 - k))) [1 ..< 51] @ [(False, Some 0)]"
proof -
  have h1: "synced (exampleState 0 False) 0"
    by (simp add: synced_def exampleState_def exampleStatus_def)
  have h2: "length (replicate 51 (1000::int)) = 51" by simp
  have h3: "synced_d (exampleState_d 0 False) 0"
    by (simp add: synced_d_def exampleState_d_def)
  have h4: "length (replicate 51 (1000::int, ''LIKE'')) = 51" by simp
  have d: "onDay exampleCalendar 1000 (exampleState_d 0 False)"
    by (simp add: onDay_def isNewDay_def exampleCalendar_def exampleState_d_def MILLISECONDS_IN_DAY_def)
  then have h5: "\<forall>(now, direction) \<in> set (replicate 51 (1000::int, ''LIKE'')).
                   onDay exampleCalendar now (exampleState_d 0 False)"
    by simp
  note q = fifty_allowed_then_blocked[OF h1 h2 h3 h4 h5]
  from q have t1: "map (\<lambda>out. (allowed out, remaining DAILY_LIMIT out))
         (fst (swipeTimes DAILY_LIMIT (replicate 51 1000) (exampleState 0 False)))
        = map (\<lambda>k. (True, Some (50 - k))) [1 ..< 51] @ [(False, Some 0)]"
    by (rule conjunct1)
  from q have t2: "map (\<lambda>out. (allowed out, remaining DAILY_SWIPE_LIMIT out))
         (fst (swipeTimes_d DAILY_SWIPE_LIMIT exampleCalendar (replicate 51 (1000, ''LIKE''))
            (exampleState_d 0 False)))
        = map (\<lambda>k. (True, Some (50 - k))) [1 ..< 51] @ [(False, Some 0)]"
    by (rule conjunct2)
  from h1 h2 h3 h4 d t1 t2 show ?thesis by (intro conjI)
qed

text \<open>
  C8. While the local status says premium, a call of \<open>handleSwipe\<close> by a ready
  component is allowed whatever the count and the limit are, and it changes neither
  the stored document nor the local status; in the transactional and in the
  calendar-day prototype.
\<close>

theorem premium_never_blocked:
  assumes "ready s" and "\<not> isLoading s" and "isPremium (userStatus s)"
    and "ready_d sd" and "isPremium_s (swipeData sd)"
  shows "allowed (fst (handleSwipe L now s))
         \<and> statusDoc (snd (handleSwipe L now s)) = statusDoc s
         \<and> userStatus (snd (handleSwipe L now s)) = userStatus s
         \<and> allowed (fst (handleSwipe_d L' direction sd))
         \<and> statusDoc_d (snd (handleSwipe_d L' direction sd)) = statusDoc_d sd
         \<and> swipeData (snd (handleSwipe_d L' direction sd)) = swipeData sd"
  using assms by (simp add: handleSwipe_def handleSwipe_d_def)

theorem premium_never_blocked_witness:
  "ready (exampleState 70 True) \<and> \<not> isLoading (exampleState 70 True)
   \<and> isPremium (userStatus (exampleState 70 True))
   \<and> ready_d (exampleState_d 70 True) \<and> isPremium_s (swipeData (exampleState_d 70 True))
   \<and> allowed (fst (handleSwipe 50 1000 (exampleState 70 True)))
   \<and> statusDoc (snd (handleSwipe 50 1000 (exampleState 70 True))) = statusDoc (exampleState 70 True)
   \<and> allowed (fst (handleSwipe_d 0 ''LIKE'' (exampleState_d 70 True)))
   \<and> statusDoc_d (snd (handleSwipe_d 0 ''LIKE'' (exampleState_d 70 True)))
        = statusDoc_d (exampleState_d 70 True)"
proof -
  have h1: "ready (exampleState 70 True)" by (simp add: exampleState_def)
  have h2: "\<not> isLoading (exampleState 70 True)" by (simp add: exampleState_def)
  have h3: "isPremium (userStatus (exampleState 70 True))"
    by (simp add: exampleState_def exampleStatus_def)
  have h4: "ready_d (exampleState_d 70 True)" by (simp add: exampleState_d_def)
  have h5: "isPremium_s (swipeData (exampleState_d 70 True))" by (simp add: exampleState_d_def)
  note q = premium_never_blocked[OF h1 h2 h3 h4 h5, of 50 1000 0 "''LIKE''"]
  from h1 h2 h3 h4 h5 q show ?thesis by (intro conjI) (elim conjE, assumption)+
qed

text \<open>
  C9. When the count of a user who is not premium has reached the limit (in the local
  status, or in the stored document while the local status lags behind), the call is not
  allowed, the remaining budget is 0, and neither the stored document nor the local
  status changes.
\<close>

theorem blocked_call_mutates_nothing:
  assumes "ready s" and "\<not> isLoading s" and "\<not> isPremium (userStatus s)"
    and "L \<le> swipeCount (userStatus s) \<or> (\<exists>d. statusDoc s = Some d \<and> L \<le> swipeCount d)"
  shows "\<not> allowed (fst (handleSwipe L now s))
         \<and> remaining L (fst (handleSwipe L now s)) = Some 0
         \<and> statusDoc (snd (handleSwipe L now s)) = statusDoc s
         \<and> userStatus (snd (handleSwipe L now s)) = userStatus s"
proof (cases "L \<le> swipeCount (userStatus s)")
  case True
  then show ?thesis using assms(1-3) by (simp add: handleSwipe_limit_local)
next
  case False
  with assms(4) obtain d where d: "statusDoc s = Some d" "L \<le> swipeCount d" by auto
  from False have "swipeCount (userStatus s) < L" by simp
  then show ?thesis using assms(1-3) d by (simp add: handleSwipe_limit_stored)
qed

theorem blocked_call_mutates_nothing_witness:
  "ready (exampleState 50 False) \<and> \<not> isLoading (exampleState 50 False)
   \<and> \<not> isPremium (userStatus (exampleState 50 False))
   \<and> (50 \<le> swipeCount (userStatus (exampleState 50 False))
        \<or> (\<exists>d. statusDoc (exampleState 50 False) = Some d \<and> 50 \<le> swipeCount d))
   \<and> \<not> allowed (fst (handleSwipe 50 1000 (exampleState 50 False)))
   \<and> remaining 50 (fst (handleSwipe 50 1000 (exampleState 50 False))) = Some 0
   \<and> statusDoc (snd (handleSwipe 50 1000 (exampleState 50 False))) = statusDoc (exampleState 50 False)
   \<and> userStatus (snd (handleSwipe 50 1000 (exampleState 50 False))) = userStatus (exampleState 50 False)"
proof -
  have h1: "ready (exampleState 50 False)" by (simp add: exampleState_def)
  have h2: "\<not> isLoading (exampleState 50 False)" by (simp add: exampleState_def)
  have h3: "\<not> isPremium (userStatus (exampleState 50 False))"
    by (simp add: exampleState_def exampleStatus_def)
  have h4: "50 \<le> swipeCount (userStatus (exampleState 50 False))
        \<or> (\<exists>d. statusDoc (exampleState 50 False) = Some d \<and> 50 \<le> swipeCount d)"
    by (simp add: exampleState_def exampleStatus_def)
  note q = blocked_call_mutates_nothing[OF h1 h2 h3 h4, of 1000]
  from h1 h2 h3 h4 q show ?thesis by (intro conjI) (elim conjE, assumption)+
qed

text \<open>
  C10. Every successful consume of a user who is not premium writes the time of the
  call into \<open>lastSwipeDate\<close> together with the incremented count, so the day of the
  reset is counted from the latest swipe: in a history in which every swipe and every
  snapshot comes less than a day after the swipe before it, no reset happens and the
  stored count is the initial count plus the number of swipes (as long as that stays
  within the limit). The reset also needs a positive count.
\<close>

theorem reset_measured_from_last_swipe:
  assumes "handleSwipe L now s0 = (Consumed n, s0')"
    and "lagging s d" and "withinDay (lastSwipeDate d) es" and "swipeCount d + swipesIn es \<le> L"
    and "swipeCount cur = 0"
  shows "(\<exists>d0. statusDoc s0 = Some d0 \<and> n = swipeCount d0 + 1
            \<and> statusDoc s0' = Some (d0\<lparr>swipeCount := swipeCount d0 + 1, lastSwipeDate := now\<rparr>))
       \<and> (\<exists>d'. statusDoc (run L es s) = Some d' \<and> swipeCount d' = swipeCount d + swipesIn es)
       \<and> resetSwipeCount now' cur s1 = s1"
  using handleSwipe_Consumed[OF assms(1)] run_no_reset[OF assms(2-4)]
    resetSwipeCount_zero[OF assms(5)]
  by (intro conjI)

theorem reset_measured_from_last_swipe_witness:
  "handleSwipe 50 1000 (exampleState 0 False)
     = (Consumed 1,
        showNewCount 50 1 ((exampleState 0 False)
          \<lparr>statusDoc := Some \<lparr>swipeCount = 1, lastSwipeDate = 1000, isPremium = False\<rparr>\<rparr>))
   \<and> lagging (exampleState 0 False) (exampleStatus 0 False)
   \<and> withinDay (lastSwipeDate (exampleStatus 0 False))
        [Swipe 86399999, Snapshot 86399999, Swipe 172799998, Snapshot 172799998]
   \<and> swipeCount (exampleStatus 0 False)
        + swipesIn [Swipe 86399999, Snapshot 86399999, Swipe 172799998, Snapshot 172799998] \<le> 50
   \<and> swipeCount (exampleStatus 0 False) = 0
   \<and> (\<exists>d'. statusDoc (run 50 [Swipe 86399999, Snapshot 86399999, Swipe 172799998, Snapshot 172799998]
                 (exampleState 0 False)) = Some d'
          \<and> swipeCount d' = swipeCount (exampleStatus 0 False)
               + swipesIn [Swipe 86399999, Snapshot 86399999, Swipe 172799998, Snapshot 172799998])
   \<and> resetSwipeCount 172800000 (exampleStatus 0 False) (exampleState 0 False) = exampleState 0 False"
proof -
  have h1: "handleSwipe 50 1000 (exampleState 0 False)
     = (Consumed 1,
        showNewCount 50 1 ((exampleState 0 False)
          \<lparr>statusDoc := Some \<lparr>swipeCount = 1, lastSwipeDate = 1000, isPremium = False\<rparr>\<rparr>))"
    by (simp add: handleSwipe_def swipeTransaction_def exampleState_def exampleStatus_def)
  have h2: "lagging (exampleState 0 False) (exampleStatus 0 False)"
    by (simp add: lagging_def exampleState_def exampleStatus_def)
  have h3: "withinDay (lastSwipeDate (exampleStatus 0 False))
        [Swipe 86399999, Snapshot 86399999, Swipe 172799998, Snapshot 172799998]"
    by (simp add: exampleStatus_def MILLISECONDS_IN_DAY_def)
  have h4: "swipeCount (exampleStatus 0 False)
        + swipesIn [Swipe 86399999, Snapshot 86399999, Swipe 172799998, Snapshot 172799998] \<le> 50"
    by (simp add: exampleStatus_def)
  have h5: "swipeCount (exampleStatus 0 False) = 0"
    by (simp add: exampleStatus_def)
  note q = reset_measured_from_last_swipe[OF h1 h2 h3 h4 h5, of 172800000 "exampleState 0 False"]
  from h1 h2 h3 h4 h5 q show ?thesis by (intro conjI) (elim conjE, assumption)+
qed

text \<open>
  C6, as stated, fails. A user who has used 10 swipes and swipes again two days after
  the stored date, with no snapshot in between, gets the count 11: \<open>handleSwipe\<close> does
  not look at the stored date and resets nothing. And the listener leaves a document
  with count 0 alone, so its date is not set to now.
\<close>

theorem rollover_at_swipe_counterexample:
  "2 * MILLISECONDS_IN_DAY - lastSwipeDate (exampleStatus 10 False) \<ge> MILLISECONDS_IN_DAY
   \<and> fst (handleSwipe 50 (2 * MILLISECONDS_IN_DAY) (exampleState 10 False)) = Consumed 11
   \<and> statusDoc (snd (handleSwipe 50 (2 * MILLISECONDS_IN_DAY) (exampleState 10 False)))
       = Some \<lparr>swipeCount = 11, lastSwipeDate = 2 * MILLISECONDS_IN_DAY, isPremium = False\<rparr>
   \<and> statusDoc (onStatusSnapshot (2 * MILLISECONDS_IN_DAY) (exampleState 0 False))
       = Some \<lparr>swipeCount = 0, lastSwipeDate = 0, isPremium = False\<rparr>"
  by (simp add: handleSwipe_def swipeTransaction_def showNewCount_def exampleState_def
        exampleStatus_def onStatusSnapshot_def resetSwipeCount_def MILLISECONDS_IN_DAY_def)

text \<open>
  C6, amended. The rollover is made by the snapshot listener, not by \<open>handleSwipe\<close>:
  on a snapshot of an existing document at the time \<open>now\<close>, the stored count is set
  to 0 and the stored date to \<open>now\<close> exactly when the user is not premium, the count is
  positive and \<open>now\<close> is a day or more after the stored date; otherwise the document
  stays as it is. \<open>handleSwipe\<close> never lowers the stored count. Once the listener has
  reset the count and received the reset document, the next call consumes with the new
  count 1. In the calendar-day prototype the reset effect resets the stored count and
  date exactly when the calendar date of \<open>now\<close> differs from that of the reset date,
  however much time has passed.
\<close>

theorem rollover_by_listener:
  assumes "statusDoc s = Some d"
    and "isAuthReady_d sd" and "ready_d sd" and "lastReset (swipeData sd) = Some t0"
    and "statusDoc_d sd = Some dd"
  shows "statusDoc (onStatusSnapshot now s)
           = (if \<not> isPremium d \<and> now - lastSwipeDate d \<ge> MILLISECONDS_IN_DAY \<and> swipeCount d > 0
              then Some (d\<lparr>swipeCount := 0, lastSwipeDate := now\<rparr>) else Some d)
       \<and> (\<exists>d'. statusDoc (snd (handleSwipe L t s)) = Some d' \<and> swipeCount d \<le> swipeCount d')
       \<and> (ready s \<and> \<not> isPremium d \<and> 0 < swipeCount d
            \<and> now - lastSwipeDate d \<ge> MILLISECONDS_IN_DAY \<and> 0 < L \<longrightarrow>
            fst (handleSwipe L t (onStatusSnapshot now' (onStatusSnapshot now s))) = Consumed 1)
       \<and> statusDoc_d (resetEffect_d toDateString today sd)
           = (if toDateString today \<noteq> toDateString t0
              then Some (dd\<lparr>swipesToday_d := 0, lastResetDate_d := Some today\<rparr>) else Some dd)"
proof -
  have r: "statusDoc_d (resetEffect_d toDateString today sd)
           = (if toDateString today \<noteq> toDateString t0
              then Some (dd\<lparr>swipesToday_d := 0, lastResetDate_d := Some today\<rparr>) else Some dd)"
    using assms(2-5) by (simp add: resetEffect_d_def isNewDay_def)
  from onStatusSnapshot_doc[OF assms(1), of now] handleSwipe_no_reset[OF assms(1), of L t]
    consume_after_reset[OF _ assms(1), of now L t now'] r
  show ?thesis by (intro conjI impI) simp_all
qed

theorem rollover_by_listener_witness:
  "statusDoc (exampleState 50 False) = Some (exampleStatus 50 False)
   \<and> isAuthReady_d (exampleState_d 50 False) \<and> ready_d (exampleState_d 50 False)
   \<and> lastReset (swipeData (exampleState_d 50 False)) = Some 0
   \<and> statusDoc_d (exampleState_d 50 False)
       = Some \<lparr>swipesToday_d = 50, isPremium_d = False, lastResetDate_d = Some 0\<rparr>
   \<and> statusDoc (onStatusSnapshot 86400000 (exampleState 50 False))
       = Some \<lparr>swipeCount = 0, lastSwipeDate = 86400000, isPremium = False\<rparr>
   \<and> fst (handleSwipe 50 86400002
            (onStatusSnapshot 86400001 (onStatusSnapshot 86400000 (exampleState 50 False))))
       = Consumed 1
   \<and> statusDoc_d (resetEffect_d exampleCalendar 86400000 (exampleState_d 50 False))
       = Some \<lparr>swipesToday_d = 0, isPremium_d = False, lastResetDate_d = Some 86400000\<rparr>
   \<and> statusDoc_d (resetEffect_d exampleCalendar 86399999 (exampleState_d 50 False))
       = Some \<lparr>swipesToday_d = 50, isPremium_d = False, lastResetDate_d = Some 0\<rparr>"
proof -
  have h1: "statusDoc (exampleState 50 False) = Some (exampleStatus 50 False)"
    by (simp add: exampleState_def)
  have h2: "isAuthReady_d (exampleState_d 50 False)" and h3: "ready_d (exampleState_d 50 False)"
    and h4: "lastReset (swipeData (exampleState_d 50 False)) = Some 0"
    and h5: "statusDoc_d (exampleState_d 50 False)
       = Some \<lparr>swipesToday_d = 50, isPremium_d = False, lastResetDate_d = Some 0\<rparr>"
    by (simp_all add: exampleState_d_def)
  have c: "ready (exampleState 50 False) \<and> \<not> isPremium (exampleStatus 50 False)
      \<and> 0 < swipeCount (exampleStatus 50 False)
      \<and> 86400000 - lastSwipeDate (exampleStatus 50 False) \<ge> MILLISECONDS_IN_DAY \<and> 0 < (50::nat)"
    by (simp add: exampleState_def exampleStatus_def MILLISECONDS_IN_DAY_def)
  note q = rollover_by_listener[OF h1 h2 h3 h4 h5, of 86400000 50 86400002 86400001
      exampleCalendar 86400000]
  note q' = rollover_by_listener[OF h1 h2 h3 h4 h5, of 86400000 50 86400002 86400001
      exampleCalendar 86399999]
  from q c have t1: "statusDoc (onStatusSnapshot 86400000 (exampleState 50 False))
       = Some \<lparr>swipeCount = 0, lastSwipeDate = 86400000, isPremium = False\<rparr>"
    by (simp add: exampleStatus_def)
  from q c have t2: "fst (handleSwipe 50 86400002
            (onStatusSnapshot 86400001 (onStatusSnapshot 86400000 (exampleState 50 False))))
       = Consumed 1"
    by blast
  from q have t3: "statusDoc_d (resetEffect_d exampleCalendar 86400000 (exampleState_d 50 False))
       = Some \<lparr>swipesToday_d = 0, isPremium_d = False, lastResetDate_d = Some 86400000\<rparr>"
    by (simp add: exampleCalendar_def MILLISECONDS_IN_DAY_def)
  from q' have t4: "statusDoc_d (resetEffect_d exampleCalendar 86399999 (exampleState_d 50 False))
       = Some \<lparr>swipesToday_d = 50, isPremium_d = False, lastResetDate_d = Some 0\<rparr>"
    by (simp add: exampleCalendar_def MILLISECONDS_IN_DAY_def)
  from h1 h2 h3 h4 h5 t1 t2 t3 t4 show ?thesis by (intro conjI)
qed

text \<open>
  C7, as stated, fails in its third effect: the upgrade does not read the clock and
  does not set the start of the window. \<open>handleGoPremium\<close> leaves \<open>lastSwipeDate\<close> as
  it was (here 0, whenever the upgrade is made), and \<open>handleMintNFT\<close> removes the stored
  reset date.
\<close>

theorem upgrade_window_start_counterexample:
  "statusDoc (handleGoPremium (exampleState 50 False))
     = Some \<lparr>swipeCount = 0, lastSwipeDate = 0, isPremium = True\<rparr>
   \<and> statusDoc_n (handleMintNFT ''0x4bA8'' (exampleState_n 50))
     = Some \<lparr>swipesToday = 0, isPremium_n = True, lastResetDate = None, matches_n = [],
             walletAddress = Some ''0x4bA8'', farcasterConnected = False\<rparr>"
  by (simp add: handleGoPremium_def exampleState_def exampleStatus_def handleMintNFT_def
        exampleState_n_def exampleStatus_n_def initialStatus_def)

text \<open>
  C7, amended. The upgrade sets the premium flag and resets the count to 0, and leaves
  the start of the window as it was; it is idempotent; and afterwards (in the
  transactional prototype: once the listener has delivered the upgraded document) every
  call is allowed, whatever the limit, 0 included.
\<close>

theorem upgrade_resets_and_unblocks:
  assumes "ready s" and "statusDoc s = Some d"
    and "userId_n sn \<noteq> []" and "hasDb sn \<longrightarrow> statusDoc_n sn \<noteq> None"
  shows "statusDoc (handleGoPremium s) = Some (d\<lparr>isPremium := True, swipeCount := 0\<rparr>)
       \<and> handleGoPremium (handleGoPremium s) = handleGoPremium s
       \<and> list_all allowed (fst (swipeTimes L ts (onStatusSnapshot now (handleGoPremium s))))
       \<and> isPremium_n (userStatus_n (handleMintNFT w sn))
       \<and> swipesToday (userStatus_n (handleMintNFT w sn)) = 0
       \<and> lastResetDate (userStatus_n (handleMintNFT w sn)) = lastResetDate (userStatus_n sn)
       \<and> handleMintNFT w (handleMintNFT w sn) = handleMintNFT w sn
       \<and> list_all allowed (fst (swipeTimes_n L today ds (handleMintNFT w sn)))"
proof -
  let ?s1 = "onStatusSnapshot now (handleGoPremium s)"
  have s1: "ready ?s1" "\<not> isLoading ?s1" "isPremium (userStatus ?s1)"
    using assms(1,2) by (simp_all add: handleGoPremium_doc onStatusSnapshot_def resetSwipeCount_def)
  have a: "statusDoc (handleGoPremium s) = Some (d\<lparr>isPremium := True, swipeCount := 0\<rparr>)"
    using assms(1,2) by (simp add: handleGoPremium_doc)
  have b: "isPremium_n (userStatus_n (handleMintNFT w sn))"
    "swipesToday (userStatus_n (handleMintNFT w sn)) = 0"
    "lastResetDate (userStatus_n (handleMintNFT w sn)) = lastResetDate (userStatus_n sn)"
    by (simp_all add: handleMintNFT_def Let_def split: option.splits)
  from a handleGoPremium_idem[of s] swipeTimes_premium[OF s1, of L ts] b
    handleMintNFT_idem[of w sn] swipeTimes_n_premium[OF handleMintNFT_premium[OF assms(3,4)], of L today ds w]
  show ?thesis by (intro conjI)
qed

theorem upgrade_resets_and_unblocks_witness:
  "ready (exampleState 50 False) \<and> statusDoc (exampleState 50 False) = Some (exampleStatus 50 False)
   \<and> userId_n (exampleState_n 50) \<noteq> [] \<and> statusDoc_n (exampleState_n 50) \<noteq> None
   \<and> statusDoc (handleGoPremium (exampleState 50 False))
       = Some ((exampleStatus 50 False)\<lparr>isPremium := True, swipeCount := 0\<rparr>)
   \<and> list_all allowed (fst (swipeTimes 0 [1000, 2000, 3000]
                               (onStatusSnapshot 500 (handleGoPremium (exampleState 50 False)))))
   \<and> list_all allowed (fst (swipeTimes_n 0 ''2026-11-02'' [''LIKE'', ''DISLIKE'']
                               (handleMintNFT ''0x4bA8'' (exampleState_n 50))))"
proof -
  have h1: "ready (exampleState 50 False)" by (simp add: exampleState_def)
  have h2: "statusDoc (exampleState 50 False) = Some (exampleStatus 50 False)"
    by (simp add: exampleState_def)
  have h3: "userId_n (exampleState_n 50) \<noteq> []" by (simp add: exampleState_n_def)
  have h4: "statusDoc_n (exampleState_n 50) \<noteq> None" by (simp add: exampleState_n_def)
  then have h4': "hasDb (exampleState_n 50) \<longrightarrow> statusDoc_n (exampleState_n 50) \<noteq> None" by simp
  note q = upgrade_resets_and_unblocks[OF h1 h2 h3 h4',
      of 0 "[1000, 2000, 3000]" 500 "''0x4bA8''" "''2026-11-02''" "[''LIKE'', ''DISLIKE'']"]
  from h1 h2 h3 h4 q show ?thesis by (intro conjI) (elim conjE, assumption)+
qed

section \<open>The claims about matches\<close>




text \<open>
  C4. The second of two opposite likes finds the match whichever user likes first, and
  the match id is the key of the sorted pair, the same in both orders. (When no opposite
  like exists yet, the first call reports no match.)
\<close>

theorem match_id_order_independent:
  assumes "showing cA a b" and "showing cB b a"
  shows "(\<not> likeRecord st b a \<and> a \<noteq> b \<longrightarrow> resultOf ''like'' t1 cA st = Recorded None)
       \<and> resultOf ''like'' t2 cB (storeAfter ''like'' t1 cA st) = Recorded (Some (matchIdOf a b))
       \<and> (\<not> likeRecord st a b \<and> a \<noteq> b \<longrightarrow> resultOf ''like'' t1' cB st = Recorded None)
       \<and> resultOf ''like'' t2' cA (storeAfter ''like'' t1' cB st) = Recorded (Some (matchIdOf a b))
       \<and> matchIdOf a b = (if b < a then b @ ''_'' @ a else a @ ''_'' @ b)
       \<and> matchIdOf a b = matchIdOf b a"
proof -
  have r1: "\<not> likeRecord st b a \<and> a \<noteq> b \<longrightarrow> resultOf ''like'' t1 cA st = Recorded None"
    using handleSwipe_m_like(1)[OF assms(1), of t1 st] by auto
  have r1': "\<not> likeRecord st a b \<and> a \<noteq> b \<longrightarrow> resultOf ''like'' t1' cB st = Recorded None"
    using handleSwipe_m_like(1)[OF assms(2), of t1' st] by auto
  have "likeRecord (storeAfter ''like'' t1 cA st) a b"
    using likeRecord_after_like[OF assms(1), of t1 st a b] by simp
  then have r2: "resultOf ''like'' t2 cB (storeAfter ''like'' t1 cA st) = Recorded (Some (matchIdOf b a))"
    using handleSwipe_m_like(1)[OF assms(2), of t2 "storeAfter ''like'' t1 cA st"] by simp
  have "likeRecord (storeAfter ''like'' t1' cB st) b a"
    using likeRecord_after_like[OF assms(2), of t1' st b a] by simp
  then have r2': "resultOf ''like'' t2' cA (storeAfter ''like'' t1' cB st) = Recorded (Some (matchIdOf a b))"
    using handleSwipe_m_like(1)[OF assms(1), of t2' "storeAfter ''like'' t1' cB st"] by simp
  have d: "matchIdOf a b = (if b < a then b @ ''_'' @ a else a @ ''_'' @ b)"
    by (simp add: matchIdOf_def)
  from r1 r1' r2 r2' d matchIdOf_commute[of a b] show ?thesis by simp
qed

theorem match_id_order_independent_witness:
  "showing (exampleClient ''alice'' ''bob'') ''alice'' ''bob''
   \<and> showing (exampleClient ''bob'' ''alice'') ''bob'' ''alice''
   \<and> resultOf ''like'' 1 (exampleClient ''alice'' ''bob'') emptyStore = Recorded None
   \<and> resultOf ''like'' 2 (exampleClient ''bob'' ''alice'')
        (storeAfter ''like'' 1 (exampleClient ''alice'' ''bob'') emptyStore)
       = Recorded (Some (matchIdOf ''alice'' ''bob''))
   \<and> resultOf ''like'' 1 (exampleClient ''bob'' ''alice'') emptyStore = Recorded None
   \<and> resultOf ''like'' 2 (exampleClient ''alice'' ''bob'')
        (storeAfter ''like'' 1 (exampleClient ''bob'' ''alice'') emptyStore)
       = Recorded (Some (matchIdOf ''alice'' ''bob''))
   \<and> matchIdOf ''alice'' ''bob'' = ''alice_bob''
   \<and> matchIdOf ''bob'' ''alice'' = ''alice_bob''"
proof -
  have h1: "showing (exampleClient ''alice'' ''bob'') ''alice'' ''bob''"
    by (rule showing_exampleClient)
  have h2: "showing (exampleClient ''bob'' ''alice'') ''bob'' ''alice''"
    by (rule showing_exampleClient)
  have n: "\<not> likeRecord emptyStore ''bob'' ''alice'' \<and> ''alice'' \<noteq> ''bob''"
    "\<not> likeRecord emptyStore ''alice'' ''bob'' \<and> ''alice'' \<noteq> ''bob''"
    by (simp_all add: likeRecord_emptyStore)
  note q = match_id_order_independent[OF h1 h2, of emptyStore 1 2 1 2]
  from q n(1) have t1: "resultOf ''like'' 1 (exampleClient ''alice'' ''bob'') emptyStore = Recorded None"
    by blast
  from q n(2) have t3: "resultOf ''like'' 1 (exampleClient ''bob'' ''alice'') emptyStore = Recorded None"
    by blast
  from q have t2: "resultOf ''like'' 2 (exampleClient ''bob'' ''alice'')
        (storeAfter ''like'' 1 (exampleClient ''alice'' ''bob'') emptyStore)
       = Recorded (Some (matchIdOf ''alice'' ''bob''))"
    and t4: "resultOf ''like'' 2 (exampleClient ''alice'' ''bob'')
        (storeAfter ''like'' 1 (exampleClient ''bob'' ''alice'') emptyStore)
       = Recorded (Some (matchIdOf ''alice'' ''bob''))"
    by blast+
  have t5: "matchIdOf ''alice'' ''bob'' = ''alice_bob''" "matchIdOf ''bob'' ''alice'' = ''alice_bob''"
    by (simp_all add: matchIdOf_def)
  from h1 h2 t1 t2 t3 t4 t5 show ?thesis by (intro conjI)
qed

text \<open>
  C5, as stated, fails: every like adds a document to the public likes, so the same like
  made twice leaves two like records for the ordered pair.
\<close>

theorem repeated_like_counterexample:
  "publicLikes (storeAfter ''like'' 2 (exampleClient ''alice'' ''bob'')
     (storeAfter ''like'' 1 (exampleClient ''alice'' ''bob'') emptyStore))
   = [\<lparr>likerId = ''alice'', likedId = ''bob'', timestamp_p = 1\<rparr>,
      \<lparr>likerId = ''alice'', likedId = ''bob'', timestamp_p = 2\<rparr>]"
  by (simp add: handleSwipe_m_like(2)[OF showing_exampleClient] emptyStore_def)

text \<open>
  C5, amended. The same like made twice reports the same match result both times and
  leaves the set of directed likes and the keys of the private likes as the first call
  left them; the public likes gain one more document for the pair.
\<close>

theorem repeated_like_same_edges:
  assumes "showing c u p" and "showing c' u p"
  shows "resultOf ''like'' t2 c' (storeAfter ''like'' t1 c st) = resultOf ''like'' t1 c st
       \<and> (\<forall>a b. likeRecord (storeAfter ''like'' t2 c' (storeAfter ''like'' t1 c st)) a b
                  = likeRecord (storeAfter ''like'' t1 c st) a b)
       \<and> (\<forall>v k. (privateLikes (storeAfter ''like'' t2 c' (storeAfter ''like'' t1 c st)) v k = None)
                  = (privateLikes (storeAfter ''like'' t1 c st) v k = None))
       \<and> length (publicLikes (storeAfter ''like'' t2 c' (storeAfter ''like'' t1 c st)))
           = length (publicLikes (storeAfter ''like'' t1 c st)) + 1"
proof -
  let ?st1 = "storeAfter ''like'' t1 c st"
  have l: "\<And>a b. likeRecord ?st1 a b = (likeRecord st a b \<or> (a = u \<and> b = p))"
    using likeRecord_after_like[OF assms(1)] by simp
  have l2: "\<And>a b. likeRecord (storeAfter ''like'' t2 c' ?st1) a b = (likeRecord ?st1 a b \<or> (a = u \<and> b = p))"
    using likeRecord_after_like[OF assms(2)] by simp
  have a: "resultOf ''like'' t2 c' ?st1 = resultOf ''like'' t1 c st"
    unfolding handleSwipe_m_like(1)[OF assms(1)] handleSwipe_m_like(1)[OF assms(2)] l by auto
  have b: "\<forall>a b. likeRecord (storeAfter ''like'' t2 c' ?st1) a b = likeRecord ?st1 a b"
    unfolding l2 unfolding l by blast
  have c: "\<forall>v k. (privateLikes (storeAfter ''like'' t2 c' ?st1) v k = None)
                  = (privateLikes ?st1 v k = None)"
    unfolding handleSwipe_m_like(4)[OF assms(2)] unfolding handleSwipe_m_like(4)[OF assms(1)] by simp
  have d: "length (publicLikes (storeAfter ''like'' t2 c' ?st1)) = length (publicLikes ?st1) + 1"
    unfolding handleSwipe_m_like(2)[OF assms(2)] by simp
  from a b c d show ?thesis by (intro conjI)
qed

theorem repeated_like_same_edges_witness:
  "showing (exampleClient ''alice'' ''bob'') ''alice'' ''bob''
   \<and> resultOf ''like'' 2 (exampleClient ''alice'' ''bob'')
        (storeAfter ''like'' 1 (exampleClient ''alice'' ''bob'') emptyStore)
       = resultOf ''like'' 1 (exampleClient ''alice'' ''bob'') emptyStore
   \<and> length (publicLikes (storeAfter ''like'' 2 (exampleClient ''alice'' ''bob'')
        (storeAfter ''like'' 1 (exampleClient ''alice'' ''bob'') emptyStore)))
       = length (publicLikes (storeAfter ''like'' 1 (exampleClient ''alice'' ''bob'') emptyStore)) + 1"
proof -
  have h1: "showing (exampleClient ''alice'' ''bob'') ''alice'' ''bob''"
    by (rule showing_exampleClient)
  note q = repeated_like_same_edges[OF h1 h1, of 2 1 emptyStore]
  from q have t1: "resultOf ''like'' 2 (exampleClient ''alice'' ''bob'')
        (storeAfter ''like'' 1 (exampleClient ''alice'' ''bob'') emptyStore)
       = resultOf ''like'' 1 (exampleClient ''alice'' ''bob'') emptyStore"
    by (rule conjunct1)
  from q have t2: "length (publicLikes (storeAfter ''like'' 2 (exampleClient ''alice'' ''bob'')
        (storeAfter ''like'' 1 (exampleClient ''alice'' ''bob'') emptyStore)))
       = length (publicLikes (storeAfter ''like'' 1 (exampleClient ''alice'' ''bob'') emptyStore)) + 1"
    by (elim conjE)
  from h1 t1 t2 show ?thesis by (intro conjI)
qed

end
